theory Spec2Isabelle
  imports Main
begin

section \<open>Data model (grammar.go, operator.go)\<close>

text \<open>
  \<^verbatim>\<open>OperatorType\<close>, \<^verbatim>\<open>Associativity\<close> and precedences are Go \<^verbatim>\<open>uint\<close>s. The code
  only compares them (with each other and with zero) and never computes with them, so
  they are modelled as natural numbers; zero is the "unset" value of each.
\<close>

type_synonym OperatorType = nat
type_synonym Associativity = nat

definition OpMul :: OperatorType where "OpMul = 1"
definition OpDiv :: OperatorType where "OpDiv = 2"
definition OpMod :: OperatorType where "OpMod = 3"
definition OpAdd :: OperatorType where "OpAdd = 4"
definition OpSub :: OperatorType where "OpSub = 5"
definition OpIsNull :: OperatorType where "OpIsNull = 6"
definition OpIsNotNull :: OperatorType where "OpIsNotNull = 7"
definition OpIsTrue :: OperatorType where "OpIsTrue = 8"
definition OpIsNotTrue :: OperatorType where "OpIsNotTrue = 9"
definition OpIsFalse :: OperatorType where "OpIsFalse = 10"
definition OpIsNotFalse :: OperatorType where "OpIsNotFalse = 11"
definition OpIn :: OperatorType where "OpIn = 12"
definition OpNotIn :: OperatorType where "OpNotIn = 13"
definition OpBetween :: OperatorType where "OpBetween = 14"
definition OpNotBetween :: OperatorType where "OpNotBetween = 15"
definition OpLike :: OperatorType where "OpLike = 16"
definition OpNotLike :: OperatorType where "OpNotLike = 17"
definition OpILike :: OperatorType where "OpILike = 18"
definition OpNotILike :: OperatorType where "OpNotILike = 19"
definition OpLt :: OperatorType where "OpLt = 20"
definition OpLte :: OperatorType where "OpLte = 21"
definition OpGt :: OperatorType where "OpGt = 22"
definition OpGte :: OperatorType where "OpGte = 23"
definition OpEq :: OperatorType where "OpEq = 24"
definition OpNotEq :: OperatorType where "OpNotEq = 25"
definition OpNot :: OperatorType where "OpNot = 26"
definition OpAnd :: OperatorType where "OpAnd = 27"
definition OpOr :: OperatorType where "OpOr = 28"

definition NonAssociative :: Associativity where "NonAssociative = 1"
definition LeftAssociative :: Associativity where "LeftAssociative = 2"
definition RightAssociative :: Associativity where "RightAssociative = 3"

datatype error =
    ErrNoPrecedence
  | ErrNoAssociativity
  | ErrUnknownFromClauseItem
  | ErrNonAssociative
  | ErrZeroLength
  | ErrUnknownInputKey
  | ErrUnboundPlaceholder

text \<open>
  Every implementation of the \<^verbatim>\<open>Node\<close> interface is a constructor; \<^verbatim>\<open>Expr\<close> is an
  alias of \<^verbatim>\<open>Node\<close>. The fields come in the order of the Go struct. A field that
  the code tests against \<^verbatim>\<open>nil\<close> is an option; every other pointer or interface field
  is taken to be set. Go's static field types (a pointer to one particular struct, or
  the \<^verbatim>\<open>OrderByItem\<close> interface, which only \<^verbatim>\<open>orderbyItem\<close> implements) are not
  kept: such a field holds a \<^verbatim>\<open>Node\<close> here, so the trees of the model include every
  tree that Go admits. Trees are values: no subtree is shared between two parents.
\<close>

datatype Node =
    SQLType string
  | CastExpr Node string
  | FuncExpr string "Node list" bool
  | FromClause Node
  | JoinClause string Node Node Node
  | LabeledSelectStmt Node string
  | Column string string
  | LabeledColumn Node string
  | Table string string
  | LabeledTable string string string
  | FromClauseItem "Node option" "Node option" "Node option"
  | Tuple "Node list"
  | CaseExpr "Node list" "Node list" "Node option"
  | Placeholder string
  | WhereClause Node
  | GroupByClause "Node list"
  | HavingClause Node
  | orderbyItem Node bool bool bool
  | OrderByClause "Node list"
  | LimitClause Node
  | OffsetClause Node
  | SelectStmt "Node list" "Node option" "Node option" "Node option" "Node option"
      "Node option" "Node option" "Node option"
  | UnaryOperator OperatorType string OperatorType string Node nat Associativity
  | BinaryOperator OperatorType string OperatorType string Node Node nat Associativity bool
  | TernaryOperator OperatorType string string OperatorType string string Node Node Node
      nat Associativity

subsection \<open>The operator interface\<close>

text \<open>
  The type assertion \<^verbatim>\<open>e.(operator)\<close> succeeds exactly on the three operator structs.
  The methods of the interface exist on these three only; on any other node the
  functions below return a default that no caller reads (each call is behind
  \<open>isOperator\<close>).
\<close>

fun isOperator :: "Node \<Rightarrow> bool" where
  "isOperator (UnaryOperator t s nt ns e cp ca) = True"
| "isOperator (BinaryOperator t s nt ns l r cp ca sp) = True"
| "isOperator (TernaryOperator t s1 s2 nt ns1 ns2 e1 e2 e3 cp ca) = True"
| "isOperator _ = False"

fun precedence :: "Node \<Rightarrow> nat" where
  "precedence (UnaryOperator t s nt ns e cp ca) = cp"
| "precedence (BinaryOperator t s nt ns l r cp ca sp) = cp"
| "precedence (TernaryOperator t s1 s2 nt ns1 ns2 e1 e2 e3 cp ca) = cp"
| "precedence _ = 0"

fun associativity :: "Node \<Rightarrow> Associativity" where
  "associativity (UnaryOperator t s nt ns e cp ca) = ca"
| "associativity (BinaryOperator t s nt ns l r cp ca sp) = ca"
| "associativity (TernaryOperator t s1 s2 nt ns1 ns2 e1 e2 e3 cp ca) = ca"
| "associativity _ = 0"

fun operatorType :: "Node \<Rightarrow> OperatorType" where
  "operatorType (UnaryOperator t s nt ns e cp ca) = t"
| "operatorType (BinaryOperator t s nt ns l r cp ca sp) = t"
| "operatorType (TernaryOperator t s1 s2 nt ns1 ns2 e1 e2 e3 cp ca) = t"
| "operatorType _ = 0"

fun isNot :: "Node \<Rightarrow> bool" where
  "isNot (UnaryOperator t s nt ns e cp ca) = (t = OpNot)"
| "isNot _ = False"

fun negatable :: "Node \<Rightarrow> bool" where
  "negatable (UnaryOperator t s nt ns e cp ca) =
     (isNot (UnaryOperator t s nt ns e cp ca) \<or> (nt \<noteq> 0 \<and> ns \<noteq> ''''))"
| "negatable (BinaryOperator t s nt ns l r cp ca sp) = (nt \<noteq> 0 \<and> ns \<noteq> '''')"
| "negatable (TernaryOperator t s1 s2 nt ns1 ns2 e1 e2 e3 cp ca) =
     (nt \<noteq> 0 \<and> ns1 \<noteq> '''' \<and> ns2 \<noteq> '''')"
| "negatable _ = False"

text \<open>
  \<^verbatim>\<open>BinaryOperator.negate\<close> builds its result from a struct literal that does not
  name \<^verbatim>\<open>SuppressSpace\<close>, so that field of the result is Go's zero value, false.
\<close>

fun negate :: "Node \<Rightarrow> Node" where
  "negate (UnaryOperator t s nt ns e cp ca) =
     (if isNot (UnaryOperator t s nt ns e cp ca) then e
      else UnaryOperator nt ns t s e cp ca)"
| "negate (BinaryOperator t s nt ns l r cp ca sp) = BinaryOperator nt ns t s l r cp ca False"
| "negate (TernaryOperator t s1 s2 nt ns1 ns2 e1 e2 e3 cp ca) =
     TernaryOperator nt ns1 ns2 t s1 s2 e1 e2 e3 cp ca"
| "negate n = n"

subsection \<open>The output context\<close>

text \<open>
  Modelled from the spec: the \<^verbatim>\<open>Compiler\<close> struct and its methods are not among the
  source files. Following the spec's output-context contract, it owns the emitted text,
  the dialect's precedence and associativity tables (zero for an operator kind without
  an entry), the identifier-quoting rule, the placeholder-rendering rule, and the
  insertion-ordered table binding placeholder names to positions.
\<close>

record Compiler =
  buffer :: string
  precedenceTable :: "OperatorType \<Rightarrow> nat"
  associativityTable :: "OperatorType \<Rightarrow> Associativity"
  quoteIdentifier :: "string \<Rightarrow> string"
  renderPlaceholder :: "string \<Rightarrow> nat \<Rightarrow> string"
  bindings :: "(string \<times> nat) list"

text \<open>Modelled from the spec: \<^verbatim>\<open>appendLiteral(text)\<close>.\<close>

definition WriteVerbatim :: "Compiler \<Rightarrow> string \<Rightarrow> Compiler" where
  "WriteVerbatim c s = c\<lparr>buffer := buffer c @ s\<rparr>"

text \<open>Modelled from the spec: \<^verbatim>\<open>appendIdentifier(name)\<close>, dialect-quoted.\<close>

definition WriteIdentifier :: "Compiler \<Rightarrow> string \<Rightarrow> Compiler" where
  "WriteIdentifier c s = c\<lparr>buffer := buffer c @ quoteIdentifier c s\<rparr>"

text \<open>Modelled from the spec: \<^verbatim>\<open>precedenceFor(operatorKind)\<close>, natural or unset.\<close>

definition Compiler_precedence :: "Compiler \<Rightarrow> OperatorType \<Rightarrow> nat" where
  "Compiler_precedence c t = precedenceTable c t"

text \<open>Modelled from the spec: \<^verbatim>\<open>associativityFor(operatorKind)\<close>, set or unset.\<close>

definition Compiler_associativity :: "Compiler \<Rightarrow> OperatorType \<Rightarrow> Associativity" where
  "Compiler_associativity c t = associativityTable c t"

text \<open>
  Modelled from the spec: \<^verbatim>\<open>bindPlaceholder(name)\<close>. A name already bound in this print
  pass keeps its position; otherwise the next sequential 1-based position is assigned
  and recorded.
\<close>

definition insertPlaceholder :: "Compiler \<Rightarrow> string \<Rightarrow> nat \<times> Compiler" where
  "insertPlaceholder c name =
     (case map_of (bindings c) name of
        Some pos \<Rightarrow> (pos, c)
      | None \<Rightarrow>
          (let pos = Suc (length (bindings c))
           in (pos, c\<lparr>bindings := bindings c @ [(name, pos)]\<rparr>)))"

text \<open>Modelled from the spec: \<^verbatim>\<open>renderPlaceholder(name, position)\<close>.\<close>

definition makePlaceholder :: "Compiler \<Rightarrow> string \<Rightarrow> nat \<Rightarrow> string" where
  "makePlaceholder c name pos = renderPlaceholder c name pos"

section \<open>The rewrite pass: \<^verbatim>\<open>Transform\<close>\<close>

lemma size_negate: "size (negate n) \<le> size n"
  by (cases n) simp_all

lemma size_in_list: "x \<in> set xs \<Longrightarrow> size (x :: Node) \<le> size_list size xs"
  by (induction xs) auto

text \<open>
  Go's \<^verbatim>\<open>Transform\<close> overwrites the child fields of its receiver and returns the
  receiver; on a tree without sharing that is the tree rebuilt from the rewritten
  children. \<^verbatim>\<open>LabeledColumn.Transform\<close> and the leaves return the receiver as it is.
  \<^verbatim>\<open>FromClauseItem.Transform\<close> rewrites the first alternative that is set, and only
  that one.
\<close>

function Transform :: "Node \<Rightarrow> Compiler \<Rightarrow> Node" where
  "Transform (SQLType s) c = SQLType s"
| "Transform (CastExpr e t) c = CastExpr (Transform e c) t"
| "Transform (FuncExpr name args omit) c = FuncExpr name (map (\<lambda>v. Transform v c) args) omit"
| "Transform (FromClause item) c = FromClause (Transform item c)"
| "Transform (JoinClause jt l r on) c =
     JoinClause jt (Transform l c) (Transform r c) (Transform on c)"
| "Transform (LabeledSelectStmt s label) c = LabeledSelectStmt (Transform s c) label"
| "Transform (Column tlabel name) c = Column tlabel name"
| "Transform (LabeledColumn e label) c = LabeledColumn e label"
| "Transform (Table sch name) c = Table sch name"
| "Transform (LabeledTable sch name label) c = LabeledTable sch name label"
| "Transform (FromClauseItem (Some t) sq jc) c = FromClauseItem (Some (Transform t c)) sq jc"
| "Transform (FromClauseItem None (Some sq) jc) c =
     FromClauseItem None (Some (Transform sq c)) jc"
| "Transform (FromClauseItem None None (Some jc)) c =
     FromClauseItem None None (Some (Transform jc c))"
| "Transform (FromClauseItem None None None) c = FromClauseItem None None None"
| "Transform (Tuple exprs) c = Tuple (map (\<lambda>e. Transform e c) exprs)"
| "Transform (CaseExpr conds results els) c =
     CaseExpr (map (\<lambda>v. Transform v c) conds) (map (\<lambda>v. Transform v c) results)
       (map_option (\<lambda>v. Transform v c) els)"
| "Transform (Placeholder p) c = Placeholder p"
| "Transform (WhereClause e) c = WhereClause (Transform e c)"
| "Transform (GroupByClause exprs) c = GroupByClause (map (\<lambda>e. Transform e c) exprs)"
| "Transform (HavingClause e) c = HavingClause (Transform e c)"
| "Transform (orderbyItem e desc nullsSet nullsLast) c =
     orderbyItem (Transform e c) desc nullsSet nullsLast"
| "Transform (OrderByClause items) c = OrderByClause (map (\<lambda>e. Transform e c) items)"
| "Transform (LimitClause e) c = LimitClause (Transform e c)"
| "Transform (OffsetClause e) c = OffsetClause (Transform e c)"
| "Transform (SelectStmt cols fr wh gr hv ob li off) c =
     SelectStmt (map (\<lambda>v. Transform v c) cols)
       (map_option (\<lambda>v. Transform v c) fr) (map_option (\<lambda>v. Transform v c) wh)
       (map_option (\<lambda>v. Transform v c) gr) (map_option (\<lambda>v. Transform v c) hv)
       (map_option (\<lambda>v. Transform v c) ob) (map_option (\<lambda>v. Transform v c) li)
       (map_option (\<lambda>v. Transform v c) off)"
| "Transform (UnaryOperator t s nt ns e cp ca) c =
     (if isNot (UnaryOperator t s nt ns e cp ca) \<and> isOperator e \<and> negatable e
      then Transform (negate e) c
      else UnaryOperator t s nt ns (Transform e c) cp ca)"
| "Transform (BinaryOperator t s nt ns l r cp ca sp) c =
     BinaryOperator t s nt ns (Transform l c) (Transform r c) cp ca sp"
| "Transform (TernaryOperator t s1 s2 nt ns1 ns2 e1 e2 e3 cp ca) c =
     TernaryOperator t s1 s2 nt ns1 ns2 (Transform e1 c) (Transform e2 c) (Transform e3 c)
       cp ca"
  by pat_completeness auto

termination
proof (relation "measure (\<lambda>(n, c). size n)")
  show "wf (measure (\<lambda>(n, c). size n))"
    by simp
next
  fix t s nt ns e cp ca and c :: Compiler
  assume "isNot (UnaryOperator t s nt ns e cp ca) \<and> isOperator e \<and> negatable e"
  show "((negate e, c), (UnaryOperator t s nt ns e cp ca, c)) \<in> measure (\<lambda>(n, c). size n)"
    using size_negate [of e] by simp
qed (auto simp: less_Suc_eq_le dest!: size_in_list)

section \<open>The print pass: \<^verbatim>\<open>Stringify\<close>\<close>

text \<open>
  \<^verbatim>\<open>Stringify\<close> writes into the compiler it is given and returns an error or nil.
  The model returns the compiler after the call: \<open>Done\<close> when Go returns nil,
  \<open>Failed\<close> with the error and the text written so far when Go returns an error, and
  \<open>Panicked\<close> when Go panics on an index out of range.
\<close>

datatype result = Done Compiler | Failed error Compiler | Panicked

text \<open>The idiom \<^verbatim>\<open>if err := ...; err != nil { return err }\<close>, followed by the rest.\<close>

fun andThen :: "result \<Rightarrow> (Compiler \<Rightarrow> result) \<Rightarrow> result" where
  "andThen (Done c) f = f c"
| "andThen (Failed e c) f = Failed e c"
| "andThen Panicked f = Panicked"

lemma andThen_cong [fundef_cong]:
  "r = r' \<Longrightarrow> (\<And>c. r' = Done c \<Longrightarrow> f c = f' c) \<Longrightarrow> andThen r f = andThen r' f'"
  by (cases r') simp_all

definition resolveOperatorPrecedence :: "Node \<Rightarrow> Compiler \<Rightarrow> error + nat" where
  "resolveOperatorPrecedence op c =
     (let customPrecedence = precedence op in
      if customPrecedence \<noteq> 0 then Inr customPrecedence
      else
        let p = Compiler_precedence c (operatorType op) in
        if p \<noteq> 0 then Inr p else Inl ErrNoPrecedence)"

definition resolveOperatorAssociativity :: "Node \<Rightarrow> Compiler \<Rightarrow> error + Associativity" where
  "resolveOperatorAssociativity op c =
     (let customAssociativity = associativity op in
      if customAssociativity \<noteq> 0 then Inr customAssociativity
      else
        let a = Compiler_associativity c (operatorType op) in
        if a \<noteq> 0 then Inr a else Inl ErrNoAssociativity)"

text \<open>
  The closures of the three operator printers take what they capture as arguments:
  \<open>unaryWrite\<close> is \<^verbatim>\<open>write\<close> of \<^verbatim>\<open>UnaryOperator.Stringify\<close>, \<open>handleSide\<close> and
  \<open>handleExpr\<close> are those of the binary and ternary printers. \<open>commaLoop\<close> is the loop
  \<^verbatim>\<open>for _, n := range nodes[1:]\<close> that writes a comma before each further item, and
  \<open>whenLoop\<close> the loop of \<^verbatim>\<open>CaseExpr.Stringify\<close>, which reads \<^verbatim>\<open>results[i]\<close> for every
  index of \<^verbatim>\<open>conds\<close>.
\<close>

function Stringify :: "Node \<Rightarrow> Compiler \<Rightarrow> result"
  and stringifyParen :: "Node \<Rightarrow> Compiler \<Rightarrow> result"
  and stringifyCommaSeparated :: "Node list \<Rightarrow> Compiler \<Rightarrow> result"
  and commaLoop :: "Node list \<Rightarrow> Compiler \<Rightarrow> result"
  and whenLoop :: "Node list \<Rightarrow> Node list \<Rightarrow> Compiler \<Rightarrow> result"
  and unaryWrite :: "Associativity \<Rightarrow> string \<Rightarrow> Node \<Rightarrow> bool \<Rightarrow> Compiler \<Rightarrow> result"
  and handleSide :: "Associativity \<Rightarrow> nat \<Rightarrow> Node \<Rightarrow> Associativity \<Rightarrow> Compiler \<Rightarrow> result"
  and handleExpr :: "nat \<Rightarrow> Node \<Rightarrow> Compiler \<Rightarrow> result"
where
  "Stringify (SQLType s) c = Done (WriteVerbatim c s)"
| "Stringify (CastExpr e t) c =
     andThen (Stringify e (WriteVerbatim c ''CAST('')) (\<lambda>c1.
     andThen (Stringify (SQLType t) (WriteVerbatim c1 '' AS '')) (\<lambda>c2.
     Done (WriteVerbatim c2 '')'')))"
| "Stringify (FuncExpr name [] omit) c =
     (let c0 = WriteVerbatim c name in
      if omit then Done c0 else Done (WriteVerbatim c0 ''()''))"
| "Stringify (FuncExpr name (a # as) omit) c =
     andThen (Stringify a (WriteVerbatim (WriteVerbatim c name) ''('')) (\<lambda>c1.
     andThen (commaLoop as c1) (\<lambda>c2.
     Done (WriteVerbatim c2 '')'')))"
| "Stringify (FromClause item) c = Stringify item (WriteVerbatim c ''FROM '')"
| "Stringify (JoinClause jt l r on) c =
     andThen (Stringify l c) (\<lambda>c1.
     andThen (Stringify r (WriteVerbatim c1 ('' '' @ jt @ '' ''))) (\<lambda>c2.
     Stringify on (WriteVerbatim c2 '' ON '')))"
| "Stringify (LabeledSelectStmt s label) c =
     andThen (Stringify s (WriteVerbatim c ''('')) (\<lambda>c1.
     Done (WriteIdentifier (WriteVerbatim c1 '') '') label))"
| "Stringify (Column tlabel name) c =
     (let c0 = (if tlabel \<noteq> [] then WriteVerbatim (WriteIdentifier c tlabel) ''.'' else c)
      in Done (WriteIdentifier c0 name))"
| "Stringify (LabeledColumn e label) c =
     andThen (Stringify e c) (\<lambda>c1.
     Done (WriteIdentifier (WriteVerbatim c1 '' '') label))"
| "Stringify (Table sch name) c =
     (let c0 = (if sch \<noteq> [] then WriteVerbatim (WriteIdentifier c sch) ''.'' else c)
      in Done (WriteIdentifier c0 name))"
| "Stringify (LabeledTable sch name label) c =
     (let c0 = (if sch \<noteq> [] then WriteVerbatim (WriteIdentifier c sch) ''.'' else c)
      in Done (WriteIdentifier (WriteVerbatim (WriteIdentifier c0 name) '' '') label))"
| "Stringify (FromClauseItem (Some t) sq jc) c = Stringify t c"
| "Stringify (FromClauseItem None (Some sq) jc) c = Stringify sq c"
| "Stringify (FromClauseItem None None (Some jc)) c = Stringify jc c"
| "Stringify (FromClauseItem None None None) c = Failed ErrUnknownFromClauseItem c"
| "Stringify (Tuple exprs) c =
     andThen (stringifyCommaSeparated exprs (WriteVerbatim c ''('')) (\<lambda>c1.
     Done (WriteVerbatim c1 '')''))"
| "Stringify (CaseExpr conds results els) c =
     andThen (whenLoop conds results (WriteVerbatim c ''CASE'')) (\<lambda>c1.
     andThen (case els of
                None \<Rightarrow> Done c1
              | Some e \<Rightarrow> Stringify e (WriteVerbatim c1 '' ELSE '')) (\<lambda>c2.
     Done (WriteVerbatim c2 '' END'')))"
| "Stringify (Placeholder p) c =
     (let (pos, c1) = insertPlaceholder c p;
          rendered = makePlaceholder c1 p pos
      in Done (WriteVerbatim c1 rendered))"
| "Stringify (WhereClause e) c = Stringify e (WriteVerbatim c ''WHERE '')"
| "Stringify (GroupByClause exprs) c =
     stringifyCommaSeparated exprs (WriteVerbatim c ''GROUP BY '')"
| "Stringify (HavingClause e) c = Stringify e (WriteVerbatim c ''HAVING '')"
| "Stringify (orderbyItem e desc nullsSet nullsLast) c =
     andThen (Stringify e c) (\<lambda>c1.
     let c2 = (if desc then WriteVerbatim c1 '' DESC'' else c1);
         c3 = (if nullsSet
               then
                 let c4 = (if desc \<and> nullsLast then WriteVerbatim c2 '' NULLS LAST'' else c2)
                 in if \<not> desc \<and> \<not> nullsLast then WriteVerbatim c4 '' NULLS FIRST'' else c4
               else c2)
     in Done c3)"
| "Stringify (OrderByClause items) c =
     stringifyCommaSeparated items (WriteVerbatim c ''ORDER BY '')"
| "Stringify (LimitClause e) c = Stringify e (WriteVerbatim c ''LIMIT '')"
| "Stringify (OffsetClause e) c = Stringify e (WriteVerbatim c ''OFFSET '')"
| "Stringify (SelectStmt [] fr wh gr hv ob li off) c = Panicked"
| "Stringify (SelectStmt (col # cols) fr wh gr hv ob li off) c =
     andThen (Stringify col (WriteVerbatim c ''SELECT '')) (\<lambda>c1.
     andThen (commaLoop cols c1) (\<lambda>c2.
     andThen (case fr of None \<Rightarrow> Done c2
              | Some n \<Rightarrow> Stringify n (WriteVerbatim c2 '' '')) (\<lambda>c3.
     andThen (case wh of None \<Rightarrow> Done c3
              | Some n \<Rightarrow> Stringify n (WriteVerbatim c3 '' '')) (\<lambda>c4.
     andThen (case gr of None \<Rightarrow> Done c4
              | Some n \<Rightarrow> Stringify n (WriteVerbatim c4 '' '')) (\<lambda>c5.
     andThen (case hv of None \<Rightarrow> Done c5
              | Some n \<Rightarrow> Stringify n (WriteVerbatim c5 '' '')) (\<lambda>c6.
     andThen (case ob of None \<Rightarrow> Done c6
              | Some n \<Rightarrow> Stringify n (WriteVerbatim c6 '' '')) (\<lambda>c7.
     andThen (case li of None \<Rightarrow> Done c7
              | Some n \<Rightarrow> Stringify n (WriteVerbatim c7 '' '')) (\<lambda>c8.
     andThen (case off of None \<Rightarrow> Done c8
              | Some n \<Rightarrow> Stringify n (WriteVerbatim c8 '' '')) (\<lambda>c9.
     Done c9)))))))))"
| "Stringify (UnaryOperator t s nt ns e cp ca) c =
     (case resolveOperatorAssociativity (UnaryOperator t s nt ns e cp ca) c of
        Inl err \<Rightarrow> Failed err c
      | Inr assoc \<Rightarrow>
          if assoc = NonAssociative then Failed ErrNonAssociative c
          else
            (case resolveOperatorPrecedence (UnaryOperator t s nt ns e cp ca) c of
               Inl err \<Rightarrow> Failed err c
             | Inr ourPrecedence \<Rightarrow>
                 if \<not> isOperator e then unaryWrite assoc s e False c
                 else
                   (case resolveOperatorPrecedence e c of
                      Inl err \<Rightarrow> Failed err c
                    | Inr theirPrecedence \<Rightarrow>
                        if theirPrecedence < ourPrecedence then unaryWrite assoc s e True c
                        else unaryWrite assoc s e False c)))"
| "Stringify (BinaryOperator t s nt ns l r cp ca sp) c =
     (case resolveOperatorAssociativity (BinaryOperator t s nt ns l r cp ca sp) c of
        Inl err \<Rightarrow> Failed err c
      | Inr assoc \<Rightarrow>
          (case resolveOperatorPrecedence (BinaryOperator t s nt ns l r cp ca sp) c of
             Inl err \<Rightarrow> Failed err c
           | Inr ourPrecedence \<Rightarrow>
               andThen (handleSide assoc ourPrecedence l RightAssociative c) (\<lambda>c1.
               let c2 = (if sp then WriteVerbatim c1 s
                         else WriteVerbatim c1 ('' '' @ s @ '' ''))
               in handleSide assoc ourPrecedence r LeftAssociative c2)))"
| "Stringify (TernaryOperator t s1 s2 nt ns1 ns2 e1 e2 e3 cp ca) c =
     (case resolveOperatorPrecedence (TernaryOperator t s1 s2 nt ns1 ns2 e1 e2 e3 cp ca) c of
        Inl err \<Rightarrow> Failed err c
      | Inr ourPrecedence \<Rightarrow>
          andThen (handleExpr ourPrecedence e1 c) (\<lambda>c1.
          andThen (handleExpr ourPrecedence e2 (WriteVerbatim c1 ('' '' @ s1 @ '' ''))) (\<lambda>c2.
          handleExpr ourPrecedence e3 (WriteVerbatim c2 ('' '' @ s2 @ '' '')))))"
| "stringifyParen node c =
     andThen (Stringify node (WriteVerbatim c ''('')) (\<lambda>c1.
     Done (WriteVerbatim c1 '')''))"
| "stringifyCommaSeparated [] c = Done c"
| "stringifyCommaSeparated (n # ns) c = andThen (Stringify n c) (\<lambda>c1. commaLoop ns c1)"
| "commaLoop [] c = Done c"
| "commaLoop (n # ns) c =
     andThen (Stringify n (WriteVerbatim c '','')) (\<lambda>c1. commaLoop ns c1)"
| "whenLoop [] results c = Done c"
| "whenLoop (cond # conds) [] c =
     andThen (Stringify cond (WriteVerbatim c '' WHEN '')) (\<lambda>c1. Panicked)"
| "whenLoop (cond # conds) (res # results) c =
     andThen (Stringify cond (WriteVerbatim c '' WHEN '')) (\<lambda>c1.
     andThen (Stringify res (WriteVerbatim c1 '' THEN '')) (\<lambda>c2.
     whenLoop conds results c2))"
| "unaryWrite assoc symbol e needParen c =
     (let c0 = (if assoc = RightAssociative then WriteVerbatim c (symbol @ '' '') else c) in
      andThen (if needParen then stringifyParen e c0 else Stringify e c0) (\<lambda>c1.
      Done (if assoc = LeftAssociative then WriteVerbatim c1 ('' '' @ symbol) else c1)))"
| "handleSide assoc ourPrecedence e targetAssoc c =
     (if \<not> isOperator e then Stringify e c
      else
        (case resolveOperatorPrecedence e c of
           Inl err \<Rightarrow> Failed err c
         | Inr theirPrecedence \<Rightarrow>
             let needParen =
               ((assoc = NonAssociative \<and> theirPrecedence \<le> ourPrecedence) \<or>
                (assoc \<noteq> NonAssociative \<and> (theirPrecedence < ourPrecedence \<or>
                   theirPrecedence = ourPrecedence \<and> assoc = targetAssoc)))
             in if needParen then stringifyParen e c else Stringify e c))"
| "handleExpr ourPrecedence e c =
     (if \<not> isOperator e then Stringify e c
      else
        (case resolveOperatorPrecedence e c of
           Inl err \<Rightarrow> Failed err c
         | Inr theirPrecedence \<Rightarrow>
             let needParen = theirPrecedence \<le> ourPrecedence
             in if needParen then stringifyParen e c else Stringify e c))"
  by pat_completeness auto

termination
  by (relation "measure (\<lambda>x. case x of
        Inl (Inl (Inl (n, c))) \<Rightarrow> 3 * size n
      | Inl (Inl (Inr (n, c))) \<Rightarrow> 3 * size n + 1
      | Inl (Inr (Inl (ns, c))) \<Rightarrow> 3 * size_list size ns + 1
      | Inl (Inr (Inr (ns, c))) \<Rightarrow> 3 * size_list size ns + 1
      | Inr (Inl (Inl (cs, rs, c))) \<Rightarrow> 3 * (size_list size cs + size_list size rs) + 1
      | Inr (Inl (Inr (a, s, e, b, c))) \<Rightarrow> 3 * size e + 2
      | Inr (Inr (Inl (a, p, e, ta, c))) \<Rightarrow> 3 * size e + 2
      | Inr (Inr (Inr (p, e, c))) \<Rightarrow> 3 * size e + 2)") simp_all

section \<open>Constructors\<close>

text \<open>
  The builder functions of operator.go. A field the struct literal does not name has
  Go's zero value: no negated counterpart, no override, spaces around the symbol.
\<close>

definition NotOp :: "Node \<Rightarrow> Node" where
  "NotOp e = UnaryOperator OpNot ''NOT'' 0 [] e 0 0"

definition IsNull :: "Node \<Rightarrow> Node" where
  "IsNull e = UnaryOperator OpIsNull ''IS NULL'' OpIsNotNull ''IS NOT NULL'' e 0 0"

definition IsNotNull :: "Node \<Rightarrow> Node" where
  "IsNotNull e = UnaryOperator OpIsNotNull ''IS NOT NULL'' OpIsNull ''IS NULL'' e 0 0"

definition IsTrue :: "Node \<Rightarrow> Node" where
  "IsTrue e = UnaryOperator OpIsTrue ''IS TRUE'' OpIsNotTrue ''IS NOT TRUE'' e 0 0"

definition IsNotTrue :: "Node \<Rightarrow> Node" where
  "IsNotTrue e = UnaryOperator OpIsNotTrue ''IS NOT TRUE'' OpIsTrue ''IS TRUE'' e 0 0"

definition IsFalse :: "Node \<Rightarrow> Node" where
  "IsFalse e = UnaryOperator OpIsFalse ''IS FALSE'' OpIsNotFalse ''IS NOT FALSE'' e 0 0"

definition IsNotFalse :: "Node \<Rightarrow> Node" where
  "IsNotFalse e = UnaryOperator OpIsNotFalse ''IS NOT FALSE'' OpIsFalse ''IS FALSE'' e 0 0"

definition And :: "Node \<Rightarrow> Node \<Rightarrow> Node" where
  "And left right = BinaryOperator OpAnd ''AND'' 0 [] left right 0 0 False"

definition Or :: "Node \<Rightarrow> Node \<Rightarrow> Node" where
  "Or left right = BinaryOperator OpOr ''OR'' 0 [] left right 0 0 False"

definition Add :: "Node \<Rightarrow> Node \<Rightarrow> Node" where
  "Add left right = BinaryOperator OpAdd ''+'' 0 [] left right 0 0 False"

definition Sub :: "Node \<Rightarrow> Node \<Rightarrow> Node" where
  "Sub left right = BinaryOperator OpSub ''-'' 0 [] left right 0 0 False"

definition Mul :: "Node \<Rightarrow> Node \<Rightarrow> Node" where
  "Mul left right = BinaryOperator OpMul ''*'' 0 [] left right 0 0 False"

definition Div :: "Node \<Rightarrow> Node \<Rightarrow> Node" where
  "Div left right = BinaryOperator OpDiv ''/'' 0 [] left right 0 0 False"

definition Mod :: "Node \<Rightarrow> Node \<Rightarrow> Node" where
  "Mod left right = BinaryOperator OpMod ''%'' 0 [] left right 0 0 False"

definition Lt :: "Node \<Rightarrow> Node \<Rightarrow> Node" where
  "Lt left right = BinaryOperator OpLt ''<'' 0 [] left right 0 0 False"

definition Lte :: "Node \<Rightarrow> Node \<Rightarrow> Node" where
  "Lte left right = BinaryOperator OpLte ''<='' 0 [] left right 0 0 False"

definition Gt :: "Node \<Rightarrow> Node \<Rightarrow> Node" where
  "Gt left right = BinaryOperator OpGt ''>'' 0 [] left right 0 0 False"

definition Gte :: "Node \<Rightarrow> Node \<Rightarrow> Node" where
  "Gte left right = BinaryOperator OpGte ''>='' 0 [] left right 0 0 False"

definition Eq :: "Node \<Rightarrow> Node \<Rightarrow> Node" where
  "Eq left right = BinaryOperator OpEq ''='' OpNotEq ''<>'' left right 0 0 False"

definition NotEq :: "Node \<Rightarrow> Node \<Rightarrow> Node" where
  "NotEq left right = BinaryOperator OpNotEq ''<>'' OpEq ''='' left right 0 0 False"

definition In :: "Node \<Rightarrow> Node \<Rightarrow> Node" where
  "In left right = BinaryOperator OpIn ''IN'' OpNotIn ''NOT IN'' left right 0 0 False"

definition NotIn :: "Node \<Rightarrow> Node \<Rightarrow> Node" where
  "NotIn left right = BinaryOperator OpNotIn ''NOT IN'' OpIn ''IN'' left right 0 0 False"

definition Like :: "Node \<Rightarrow> Node \<Rightarrow> Node" where
  "Like left right = BinaryOperator OpLike ''LIKE'' OpNotLike ''NOT LIKE'' left right 0 0 False"

definition NotLike :: "Node \<Rightarrow> Node \<Rightarrow> Node" where
  "NotLike left right =
     BinaryOperator OpNotLike ''NOT LIKE'' OpLike ''LIKE'' left right 0 0 False"

definition ILike :: "Node \<Rightarrow> Node \<Rightarrow> Node" where
  "ILike left right =
     BinaryOperator OpILike ''ILIKE'' OpNotILike ''NOT ILIKE'' left right 0 0 False"

definition NotILike :: "Node \<Rightarrow> Node \<Rightarrow> Node" where
  "NotILike left right =
     BinaryOperator OpNotILike ''NOT ILIKE'' OpILike ''ILIKE'' left right 0 0 False"

definition Between :: "Node \<Rightarrow> Node \<Rightarrow> Node \<Rightarrow> Node" where
  "Between expr1 expr2 expr3 =
     TernaryOperator OpBetween ''BETWEEN'' ''AND'' OpNotBetween ''NOT BETWEEN'' ''AND''
       expr1 expr2 expr3 0 0"

definition NotBetween :: "Node \<Rightarrow> Node \<Rightarrow> Node \<Rightarrow> Node" where
  "NotBetween expr1 expr2 expr3 =
     TernaryOperator OpNotBetween ''NOT BETWEEN'' ''AND'' OpBetween ''BETWEEN'' ''AND''
       expr1 expr2 expr3 0 0"

text \<open>
  The order-by builders of grammar.go. \<^verbatim>\<open>NullsLast\<close> and \<^verbatim>\<open>NullsFirst\<close> read the
  expression and the direction of the item they are given through the methods of
  \<^verbatim>\<open>OrderByItem\<close>, which only \<^verbatim>\<open>orderbyItem\<close> implements.
\<close>

fun Expr :: "Node \<Rightarrow> Node" where
  "Expr (orderbyItem e desc nullsSet nullsLast) = e"
| "Expr n = n"

fun IsDesc :: "Node \<Rightarrow> bool" where
  "IsDesc (orderbyItem e desc nullsSet nullsLast) = desc"
| "IsDesc n = False"

fun HasNullsSet :: "Node \<Rightarrow> bool" where
  "HasNullsSet (orderbyItem e desc nullsSet nullsLast) = nullsSet"
| "HasNullsSet n = False"

fun IsNullsLast :: "Node \<Rightarrow> bool" where
  "IsNullsLast (orderbyItem e desc nullsSet nullsLast) = nullsLast"
| "IsNullsLast n = False"

definition Desc :: "Node \<Rightarrow> Node" where
  "Desc expr = orderbyItem expr True False False"

definition Asc :: "Node \<Rightarrow> Node" where
  "Asc expr = orderbyItem expr False False False"

definition NullsLast :: "Node \<Rightarrow> Node" where
  "NullsLast o' = orderbyItem (Expr o') (IsDesc o') True True"

definition NullsFirst :: "Node \<Rightarrow> Node" where
  "NullsFirst o' = orderbyItem (Expr o') (IsDesc o') True False"

section \<open>A dialect for the examples\<close>

text \<open>
  The concrete inputs of this development are printed against this dialect: the usual
  SQL precedence levels (a larger number binds tighter), \<^verbatim>\<open>NOT\<close> as a prefix operator,
  the \<^verbatim>\<open>IS ...\<close> tests as suffix operators, left-associative arithmetic and logic,
  non-associative comparisons, no entry for the interval tests' associativity,
  identifiers written as they are, and \<^verbatim>\<open>$n\<close>-style placeholders for the positions
  one to three.
\<close>

definition exampleDialect :: Compiler where
  "exampleDialect =
     \<lparr>buffer = [],
      precedenceTable = (\<lambda>t.
        if t = OpOr then 1 else if t = OpAnd then 2 else if t = OpNot then 3
        else if t \<in> {OpEq, OpNotEq, OpLt, OpLte, OpGt, OpGte} then 4
        else if t \<in> {OpBetween, OpNotBetween, OpIn, OpNotIn, OpLike, OpNotLike,
                       OpILike, OpNotILike} then 5
        else if t \<in> {OpIsNull, OpIsNotNull, OpIsTrue, OpIsNotTrue, OpIsFalse,
                       OpIsNotFalse} then 6
        else if t \<in> {OpAdd, OpSub} then 7
        else if t \<in> {OpMul, OpDiv, OpMod} then 8
        else 0),
      associativityTable = (\<lambda>t.
        if t = OpNot then RightAssociative
        else if t \<in> {OpIsNull, OpIsNotNull, OpIsTrue, OpIsNotTrue, OpIsFalse,
                       OpIsNotFalse} then LeftAssociative
        else if t \<in> {OpOr, OpAnd, OpAdd, OpSub, OpMul, OpDiv, OpMod} then LeftAssociative
        else if t \<in> {OpEq, OpNotEq, OpLt, OpLte, OpGt, OpGte, OpIn, OpNotIn, OpLike,
                       OpNotLike, OpILike, OpNotILike} then NonAssociative
        else 0),
      quoteIdentifier = (\<lambda>s. s),
      renderPlaceholder = (\<lambda>name pos.
        if pos = 1 then ''$1'' else if pos = 2 then ''$2'' else if pos = 3 then ''$3''
        else ''$n''),
      bindings = []\<rparr>"

lemmas op_defs = OpMul_def OpDiv_def OpMod_def OpAdd_def OpSub_def OpIsNull_def
  OpIsNotNull_def OpIsTrue_def OpIsNotTrue_def OpIsFalse_def OpIsNotFalse_def OpIn_def
  OpNotIn_def OpBetween_def OpNotBetween_def OpLike_def OpNotLike_def OpILike_def
  OpNotILike_def OpLt_def OpLte_def OpGt_def OpGte_def OpEq_def OpNotEq_def OpNot_def
  OpAnd_def OpOr_def NonAssociative_def LeftAssociative_def RightAssociative_def

lemmas resolve_defs = resolveOperatorPrecedence_def resolveOperatorAssociativity_def
  Compiler_precedence_def Compiler_associativity_def Let_def

section \<open>Precedence and associativity resolution\<close>

lemmas ctor_defs = NotOp_def IsNull_def IsNotNull_def IsTrue_def IsNotTrue_def IsFalse_def
  IsNotFalse_def And_def Or_def Add_def Sub_def Mul_def Div_def Mod_def Lt_def Lte_def Gt_def
  Gte_def Eq_def NotEq_def In_def NotIn_def Like_def NotLike_def ILike_def NotILike_def
  Between_def NotBetween_def

lemmas eval_defs = exampleDialect_def WriteVerbatim_def WriteIdentifier_def resolve_defs
  insertPlaceholder_def makePlaceholder_def

text \<open>
  C5, as the claim states it, fails. An associativity override that is not zero is
  returned whatever its value: the override 7, which is none of Left, Right and
  NonAssociative, is the effective associativity of a \<^verbatim>\<open>NOT\<close> whose dialect entry is
  Right, and the node is then printed without its symbol. And an operator whose
  associativity cannot be resolved need not fail to print: the ternary printer never
  asks for it.
\<close>

theorem resolve_effective_counterexample:
  "(7 :: nat) \<notin> {LeftAssociative, RightAssociative, NonAssociative} \<and>
   associativityTable exampleDialect OpNot = RightAssociative \<and>
   resolveOperatorAssociativity (UnaryOperator OpNot ''NOT'' 0 [] (Column [] ''a'') 0 7)
     exampleDialect = Inr 7 \<and>
   Stringify (UnaryOperator OpNot ''NOT'' 0 [] (Column [] ''a'') 0 7) exampleDialect =
     Done (exampleDialect\<lparr>buffer := ''a''\<rparr>) \<and>
   resolveOperatorAssociativity
     (Between (Column [] ''a'') (Column [] ''b'') (Column [] ''c'')) exampleDialect =
     Inl ErrNoAssociativity \<and>
   Stringify (Between (Column [] ''a'') (Column [] ''b'') (Column [] ''c'')) exampleDialect =
     Done (exampleDialect\<lparr>buffer := ''a BETWEEN b AND c''\<rparr>)"
  by (simp add: ctor_defs eval_defs op_defs)

text \<open>
  C5, amended. The effective precedence of an operator node is its own
  \<^verbatim>\<open>CustomPrecedence\<close> when that is not zero, else the dialect's entry for its \<^verbatim>\<open>Type\<close>
  when that is not zero, else resolution fails with \<open>ErrNoPrecedence\<close>; zero is never
  returned as a precedence. The effective associativity is the node's own
  \<^verbatim>\<open>CustomAssociativity\<close> when that is not zero, whatever its value, else the dialect's
  entry when that is not zero, else resolution fails with \<open>ErrNoAssociativity\<close>. The
  unary and the binary printer fail with \<open>ErrNoAssociativity\<close>, with nothing written,
  when the associativity does not resolve; the binary printer fails with
  \<open>ErrNoPrecedence\<close> when the associativity resolves and the precedence does not, the
  unary printer when moreover the associativity is not NonAssociative; the ternary
  printer fails with \<open>ErrNoPrecedence\<close> when the precedence does not resolve, and what
  it prints does not depend on the associativity override.
\<close>

theorem resolve_effective:
  "resolveOperatorPrecedence (UnaryOperator t s nt ns e cp ca) c =
     (if cp \<noteq> 0 then Inr cp
      else if precedenceTable c t \<noteq> 0 then Inr (precedenceTable c t)
      else Inl ErrNoPrecedence) \<and>
   resolveOperatorPrecedence (BinaryOperator t s nt ns l r cp ca sp) c =
     (if cp \<noteq> 0 then Inr cp
      else if precedenceTable c t \<noteq> 0 then Inr (precedenceTable c t)
      else Inl ErrNoPrecedence) \<and>
   resolveOperatorPrecedence (TernaryOperator t s1 s2 nt ns1 ns2 e1 e2 e3 cp ca) c =
     (if cp \<noteq> 0 then Inr cp
      else if precedenceTable c t \<noteq> 0 then Inr (precedenceTable c t)
      else Inl ErrNoPrecedence) \<and>
   resolveOperatorPrecedence op c \<noteq> Inr 0 \<and>
   resolveOperatorAssociativity (UnaryOperator t s nt ns e cp ca) c =
     (if ca \<noteq> 0 then Inr ca
      else if associativityTable c t \<noteq> 0 then Inr (associativityTable c t)
      else Inl ErrNoAssociativity) \<and>
   resolveOperatorAssociativity (BinaryOperator t s nt ns l r cp ca sp) c =
     (if ca \<noteq> 0 then Inr ca
      else if associativityTable c t \<noteq> 0 then Inr (associativityTable c t)
      else Inl ErrNoAssociativity) \<and>
   resolveOperatorAssociativity (TernaryOperator t s1 s2 nt ns1 ns2 e1 e2 e3 cp ca) c =
     (if ca \<noteq> 0 then Inr ca
      else if associativityTable c t \<noteq> 0 then Inr (associativityTable c t)
      else Inl ErrNoAssociativity) \<and>
   NonAssociative \<noteq> 0 \<and> LeftAssociative \<noteq> 0 \<and> RightAssociative \<noteq> 0 \<and>
   (ca = 0 \<and> associativityTable c t = 0 \<longrightarrow>
      Stringify (UnaryOperator t s nt ns e cp ca) c = Failed ErrNoAssociativity c \<and>
      Stringify (BinaryOperator t s nt ns l r cp ca sp) c = Failed ErrNoAssociativity c) \<and>
   (cp = 0 \<and> precedenceTable c t = 0 \<and>
    (if ca \<noteq> 0 then ca else associativityTable c t) \<noteq> 0 \<longrightarrow>
      Stringify (BinaryOperator t s nt ns l r cp ca sp) c = Failed ErrNoPrecedence c) \<and>
   (cp = 0 \<and> precedenceTable c t = 0 \<and>
    (if ca \<noteq> 0 then ca else associativityTable c t) \<noteq> 0 \<and>
    (if ca \<noteq> 0 then ca else associativityTable c t) \<noteq> NonAssociative \<longrightarrow>
      Stringify (UnaryOperator t s nt ns e cp ca) c = Failed ErrNoPrecedence c) \<and>
   (cp = 0 \<and> precedenceTable c t = 0 \<longrightarrow>
      Stringify (TernaryOperator t s1 s2 nt ns1 ns2 e1 e2 e3 cp ca) c =
        Failed ErrNoPrecedence c) \<and>
   Stringify (TernaryOperator t s1 s2 nt ns1 ns2 e1 e2 e3 cp ca) c =
     Stringify (TernaryOperator t s1 s2 nt ns1 ns2 e1 e2 e3 cp ca') c"
proof -
  have prec:
    "resolveOperatorPrecedence op c =
       (if precedence op \<noteq> 0 then Inr (precedence op)
        else if precedenceTable c (operatorType op) \<noteq> 0
          then Inr (precedenceTable c (operatorType op))
        else Inl ErrNoPrecedence)" for op
    by (simp add: resolve_defs)
  have assoc:
    "resolveOperatorAssociativity op c =
       (if associativity op \<noteq> 0 then Inr (associativity op)
        else if associativityTable c (operatorType op) \<noteq> 0
          then Inr (associativityTable c (operatorType op))
        else Inl ErrNoAssociativity)" for op
    by (simp add: resolve_defs)
  have named: "NonAssociative \<noteq> 0" "LeftAssociative \<noteq> 0" "RightAssociative \<noteq> 0"
    by (simp_all add: op_defs)
  have nonzero: "resolveOperatorPrecedence op c \<noteq> Inr 0"
    by (simp add: prec)
  show ?thesis
    using named nonzero by (auto simp: prec assoc simp del: handleExpr.simps handleSide.simps)
qed

theorem resolve_effective_witness:
  "resolveOperatorPrecedence
     (BinaryOperator OpSub ''-'' 0 [] (Column [] ''a'') (Column [] ''b'') 9 RightAssociative
        False) exampleDialect = Inr 9 \<and>
   resolveOperatorAssociativity
     (BinaryOperator OpSub ''-'' 0 [] (Column [] ''a'') (Column [] ''b'') 9 RightAssociative
        False) exampleDialect = Inr RightAssociative \<and>
   resolveOperatorPrecedence (UnaryOperator OpNot ''NOT'' 0 [] (Column [] ''a'') 11 0)
     exampleDialect = Inr 11 \<and>
   resolveOperatorPrecedence
     (TernaryOperator OpBetween ''BETWEEN'' ''AND'' 0 [] [] (Column [] ''a'') (Column [] ''b'')
        (Column [] ''c'') 12 0) exampleDialect = Inr 12 \<and>
   resolveOperatorPrecedence (Sub (Column [] ''a'') (Column [] ''b'')) exampleDialect = Inr 7 \<and>
   resolveOperatorAssociativity (Sub (Column [] ''a'') (Column [] ''b'')) exampleDialect =
     Inr LeftAssociative \<and>
   Stringify (UnaryOperator 99 ''~'' 0 [] (Column [] ''a'') 0 0) exampleDialect =
     Failed ErrNoAssociativity exampleDialect \<and>
   Stringify (BinaryOperator 99 ''~'' 0 [] (Column [] ''a'') (Column [] ''b'') 0 0 False)
     exampleDialect = Failed ErrNoAssociativity exampleDialect \<and>
   Stringify (UnaryOperator 99 ''~'' 0 [] (Column [] ''a'') 0 RightAssociative) exampleDialect =
     Failed ErrNoPrecedence exampleDialect \<and>
   Stringify (BinaryOperator 99 ''~'' 0 [] (Column [] ''a'') (Column [] ''b'') 0
     RightAssociative False) exampleDialect = Failed ErrNoPrecedence exampleDialect \<and>
   Stringify (TernaryOperator 99 ''~'' ''^'' 0 [] [] (Column [] ''a'') (Column [] ''b'')
     (Column [] ''c'') 0 0) exampleDialect = Failed ErrNoPrecedence exampleDialect"
proof -
  have d: "precedenceTable exampleDialect 99 = 0" "associativityTable exampleDialect 99 = 0"
    "precedenceTable exampleDialect OpSub = 7"
    "associativityTable exampleDialect OpSub = LeftAssociative"
    by (simp_all add: exampleDialect_def op_defs)
  note custom = resolve_effective [where t = OpSub and s = "''-''" and nt = 0 and ns = "[]"
      and l = "Column [] ''a''" and r = "Column [] ''b''" and cp = 9
      and ca = RightAssociative and sp = False and c = exampleDialect and op = "Column [] ''a''" and ca' = 0]
  note custom_unary = resolve_effective [where t = OpNot and s = "''NOT''" and nt = 0
      and ns = "[]" and e = "Column [] ''a''" and cp = 11 and ca = 0 and c = exampleDialect and op = "Column [] ''a''" and ca' = 0]
  note custom_ternary = resolve_effective [where t = OpBetween and ?s1.0 = "''BETWEEN''"
      and ?s2.0 = "''AND''" and nt = 0 and ?ns1.0 = "[]" and ?ns2.0 = "[]"
      and ?e1.0 = "Column [] ''a''" and ?e2.0 = "Column [] ''b''" and ?e3.0 = "Column [] ''c''"
      and cp = 12 and ca = 0 and c = exampleDialect and op = "Column [] ''a''" and ca' = 0]
  note table = resolve_effective [where t = OpSub and s = "''-''" and nt = 0 and ns = "[]"
      and l = "Column [] ''a''" and r = "Column [] ''b''" and cp = 0 and ca = 0
      and sp = False and c = exampleDialect and op = "Column [] ''a''" and ca' = 0]
  note unset = resolve_effective [where t = 99 and s = "''~''" and nt = 0 and ns = "[]"
      and e = "Column [] ''a''" and l = "Column [] ''a''" and r = "Column [] ''b''"
      and cp = 0 and ca = 0 and sp = False and ?s1.0 = "''~''" and ?s2.0 = "''^''"
      and ?ns1.0 = "[]" and ?ns2.0 = "[]" and ?e1.0 = "Column [] ''a''"
      and ?e2.0 = "Column [] ''b''" and ?e3.0 = "Column [] ''c''" and c = exampleDialect and op = "Column [] ''a''" and ca' = 0]
  note noprec = resolve_effective [where t = 99 and s = "''~''" and nt = 0 and ns = "[]"
      and e = "Column [] ''a''" and l = "Column [] ''a''" and r = "Column [] ''b''"
      and cp = 0 and ca = RightAssociative and sp = False and c = exampleDialect and op = "Column [] ''a''" and ca' = 0]
  have "resolveOperatorPrecedence
     (BinaryOperator OpSub ''-'' 0 [] (Column [] ''a'') (Column [] ''b'') 9 RightAssociative
        False) exampleDialect = Inr 9"
    and "resolveOperatorAssociativity
     (BinaryOperator OpSub ''-'' 0 [] (Column [] ''a'') (Column [] ''b'') 9 RightAssociative
        False) exampleDialect = Inr RightAssociative"
    using custom by (simp_all add: RightAssociative_def)
  moreover have "resolveOperatorPrecedence (UnaryOperator OpNot ''NOT'' 0 [] (Column [] ''a'') 11 0)
     exampleDialect = Inr 11"
    using custom_unary by simp
  moreover have "resolveOperatorPrecedence
     (TernaryOperator OpBetween ''BETWEEN'' ''AND'' 0 [] [] (Column [] ''a'') (Column [] ''b'')
        (Column [] ''c'') 12 0) exampleDialect = Inr 12"
    using custom_ternary by simp
  moreover have "resolveOperatorPrecedence (Sub (Column [] ''a'') (Column [] ''b''))
      exampleDialect = Inr 7"
    and "resolveOperatorAssociativity (Sub (Column [] ''a'') (Column [] ''b'')) exampleDialect =
      Inr LeftAssociative"
    using table by (simp_all add: d Sub_def LeftAssociative_def)
  moreover have "Stringify (UnaryOperator 99 ''~'' 0 [] (Column [] ''a'') 0 0) exampleDialect =
      Failed ErrNoAssociativity exampleDialect"
    and "Stringify (BinaryOperator 99 ''~'' 0 [] (Column [] ''a'') (Column [] ''b'') 0 0 False)
      exampleDialect = Failed ErrNoAssociativity exampleDialect"
    and "Stringify (TernaryOperator 99 ''~'' ''^'' 0 [] [] (Column [] ''a'') (Column [] ''b'')
      (Column [] ''c'') 0 0) exampleDialect = Failed ErrNoPrecedence exampleDialect"
    using unset d(1,2) by (simp_all del: Stringify.simps)
  moreover have "Stringify (UnaryOperator 99 ''~'' 0 [] (Column [] ''a'') 0 RightAssociative)
      exampleDialect = Failed ErrNoPrecedence exampleDialect"
    and "Stringify (BinaryOperator 99 ''~'' 0 [] (Column [] ''a'') (Column [] ''b'') 0
      RightAssociative False) exampleDialect = Failed ErrNoPrecedence exampleDialect"
    using noprec d(1,2)
    by (simp_all add: RightAssociative_def NonAssociative_def del: Stringify.simps)
  ultimately show ?thesis
    by (simp del: Stringify.simps)
qed

section \<open>Negated counterparts\<close>

text \<open>
  C7, as the claim states it, fails: the logical NOT is negatable, and its \<open>negate\<close>
  returns the wrapped child, which need not be an operator at all; and the negated
  counterpart of a binary operator that suppresses its spaces does not suppress them.
\<close>

theorem negate_swaps_counterexample:
  "isOperator (NotOp (Column [] ''a'')) \<and> negatable (NotOp (Column [] ''a'')) \<and>
   negate (NotOp (Column [] ''a'')) = Column [] ''a'' \<and>
   \<not> isOperator (negate (NotOp (Column [] ''a''))) \<and>
   negatable
     (BinaryOperator OpEq ''='' OpNotEq ''<>'' (Column [] ''a'') (Column [] ''b'') 0 0 True) \<and>
   negate
     (BinaryOperator OpEq ''='' OpNotEq ''<>'' (Column [] ''a'') (Column [] ''b'') 0 0 True) =
     BinaryOperator OpNotEq ''<>'' OpEq ''='' (Column [] ''a'') (Column [] ''b'') 0 0 False"
  by (simp add: NotOp_def OpNotEq_def)

text \<open>
  C7, amended. For every operator other than the logical NOT, \<open>negate\<close> returns an
  operator of the same arity whose kind and symbols are swapped with the stored negated
  counterpart, with the same children and the same precedence and associativity
  overrides; the logical NOT is always negatable and its \<open>negate\<close> returns the wrapped
  child. Nothing is said about the space-suppression flag of a binary operator.
\<close>

theorem negate_swaps:
  "(\<not> isNot (UnaryOperator t s nt ns e cp ca) \<longrightarrow>
      negate (UnaryOperator t s nt ns e cp ca) = UnaryOperator nt ns t s e cp ca) \<and>
   (isNot (UnaryOperator t s nt ns e cp ca) \<longrightarrow>
      negatable (UnaryOperator t s nt ns e cp ca) \<and>
      negate (UnaryOperator t s nt ns e cp ca) = e) \<and>
   (\<exists>sp'. negate (BinaryOperator t s nt ns l r cp ca sp) =
      BinaryOperator nt ns t s l r cp ca sp') \<and>
   negate (TernaryOperator t s1 s2 nt ns1 ns2 e1 e2 e3 cp ca) =
     TernaryOperator nt ns1 ns2 t s1 s2 e1 e2 e3 cp ca"
  by auto

theorem negate_swaps_witness:
  "negate (IsNull (Column [] ''a'')) = IsNotNull (Column [] ''a'') \<and>
   negatable (NotOp (IsNull (Column [] ''a''))) \<and>
   negate (NotOp (IsNull (Column [] ''a''))) = IsNull (Column [] ''a'') \<and>
   negate (Between (Column [] ''a'') (Column [] ''b'') (Column [] ''c'')) =
     NotBetween (Column [] ''a'') (Column [] ''b'') (Column [] ''c'')"
proof -
  note unary = negate_swaps [of OpIsNull "''IS NULL''" OpIsNotNull "''IS NOT NULL''"
      "Column [] ''a''" 0 0]
  note not = negate_swaps [of OpNot "''NOT''" 0 "[]" "IsNull (Column [] ''a'')" 0 0]
  note ternary = negate_swaps [where t = OpBetween and ?s1.0 = "''BETWEEN''"
      and ?s2.0 = "''AND''" and nt = OpNotBetween and ?ns1.0 = "''NOT BETWEEN''"
      and ?ns2.0 = "''AND''" and ?e1.0 = "Column [] ''a''" and ?e2.0 = "Column [] ''b''"
      and ?e3.0 = "Column [] ''c''" and cp = 0 and ca = 0]
  show ?thesis
    using unary not ternary
    by (simp add: IsNull_def IsNotNull_def NotOp_def Between_def NotBetween_def OpIsNull_def
        OpNot_def)
qed

section \<open>Statement printers\<close>

text \<open>
  C10. An order-by item prints a NULLS keyword in two of the four combinations of
  direction and nulls preference: descending with nulls last, and ascending with nulls
  first. \<^verbatim>\<open>NullsLast\<close> of an ascending item and \<^verbatim>\<open>NullsFirst\<close> of a descending item
  print what the item prints without the preference.
\<close>

theorem orderby_nulls:
  "Stringify (NullsLast (Desc e)) c =
     andThen (Stringify e c)
       (\<lambda>c1. Done (WriteVerbatim (WriteVerbatim c1 '' DESC'') '' NULLS LAST'')) \<and>
   Stringify (NullsFirst (Asc e)) c =
     andThen (Stringify e c) (\<lambda>c1. Done (WriteVerbatim c1 '' NULLS FIRST'')) \<and>
   Stringify (NullsLast (Asc e)) c = Stringify (Asc e) c \<and>
   Stringify (NullsFirst (Desc e)) c = Stringify (Desc e) c \<and>
   Stringify (Asc e) c = andThen (Stringify e c) Done \<and>
   Stringify (Desc e) c = andThen (Stringify e c) (\<lambda>c1. Done (WriteVerbatim c1 '' DESC'')) \<and>
   HasNullsSet (NullsLast (Asc e)) \<and> IsNullsLast (NullsLast (Asc e)) \<and>
   HasNullsSet (NullsFirst (Desc e)) \<and> \<not> IsNullsLast (NullsFirst (Desc e)) \<and>
   Stringify (NullsLast (Desc (Column [] name))) c =
     Done (c\<lparr>buffer := buffer c @ quoteIdentifier c name @ '' DESC NULLS LAST''\<rparr>) \<and>
   Stringify (NullsFirst (Asc (Column [] name))) c =
     Done (c\<lparr>buffer := buffer c @ quoteIdentifier c name @ '' NULLS FIRST''\<rparr>) \<and>
   Stringify (NullsLast (Asc (Column [] name))) c =
     Done (c\<lparr>buffer := buffer c @ quoteIdentifier c name\<rparr>) \<and>
   Stringify (NullsFirst (Desc (Column [] name))) c =
     Done (c\<lparr>buffer := buffer c @ quoteIdentifier c name @ '' DESC''\<rparr>)"
  by (simp add: NullsLast_def NullsFirst_def Asc_def Desc_def WriteVerbatim_def
      WriteIdentifier_def)

text \<open>
  The step \<^verbatim>\<open>if s.X != nil { c.WriteVerbatim(" "); ... s.X.Stringify(c) ... }\<close> that
  \<^verbatim>\<open>SelectStmt.Stringify\<close> repeats for each of its seven clauses.
\<close>

definition optionalClause :: "Node option \<Rightarrow> Compiler \<Rightarrow> result" where
  "optionalClause clause c =
     (case clause of None \<Rightarrow> Done c | Some n \<Rightarrow> Stringify n (WriteVerbatim c '' ''))"

lemma commaLoop_columns:
  "commaLoop (map (\<lambda>(n, l). LabeledColumn (Column [] n) l) ps) c =
     Done (c\<lparr>buffer := buffer c @
       concat (map (\<lambda>(n, l). '','' @ quoteIdentifier c n @ '' '' @ quoteIdentifier c l) ps)\<rparr>)"
proof (induction ps arbitrary: c)
  case Nil
  show ?case by simp
next
  case (Cons p ps)
  obtain n l where p: "p = (n, l)" by (cases p)
  show ?case
    by (simp add: p Cons.IH WriteVerbatim_def WriteIdentifier_def)
qed

text \<open>
  C9. \<^verbatim>\<open>SelectStmt.Stringify\<close> reads \<^verbatim>\<open>s.Columns[0]\<close> without a test of the length:
  with no column it panics and returns no error. With columns, the first is printed
  after \<^verbatim>\<open>SELECT\<close> and a space, and every further column after a comma with no space;
  the clauses follow. For columns that are labelled plain columns the text is written
  out.
\<close>

theorem select_columns:
  "Stringify (SelectStmt [] fr wh gr hv ob li off) c = Panicked \<and>
   Stringify (SelectStmt (col # cols) None None None None None None None) c =
     andThen (Stringify col (WriteVerbatim c ''SELECT '')) (commaLoop cols) \<and>
   commaLoop [] c = Done c \<and>
   commaLoop (n # ns) c = andThen (Stringify n (WriteVerbatim c '','')) (commaLoop ns) \<and>
   Stringify (SelectStmt (col # cols) fr wh gr hv ob li off) c =
     andThen (Stringify (SelectStmt (col # cols) None None None None None None None) c) (\<lambda>c2.
     andThen (optionalClause fr c2) (\<lambda>c3.
     andThen (optionalClause wh c3) (\<lambda>c4.
     andThen (optionalClause gr c4) (\<lambda>c5.
     andThen (optionalClause hv c5) (\<lambda>c6.
     andThen (optionalClause ob c6) (\<lambda>c7.
     andThen (optionalClause li c7) (\<lambda>c8.
     optionalClause off c8))))))) \<and>
   Stringify
     (SelectStmt (map (\<lambda>(n, l). LabeledColumn (Column [] n) l) ((n1, l1) # ps))
        None None None None None None None) c =
     Done (c\<lparr>buffer := buffer c @ ''SELECT '' @ quoteIdentifier c n1 @ '' '' @
       quoteIdentifier c l1 @
       concat (map (\<lambda>(n, l). '','' @ quoteIdentifier c n @ '' '' @ quoteIdentifier c l) ps)\<rparr>)"
proof -
  have andThen_Done: "andThen r Done = r" for r
    by (cases r) simp_all
  have andThen_eta: "andThen r (\<lambda>c. f c) = andThen r f" for r f
    by simp
  have plain:
    "Stringify (SelectStmt (col # cols) None None None None None None None) c =
       andThen (Stringify col (WriteVerbatim c ''SELECT '')) (commaLoop cols)"
    by (cases "Stringify col (WriteVerbatim c ''SELECT '')";
        cases "commaLoop cols (case Stringify col (WriteVerbatim c ''SELECT '') of Done x \<Rightarrow> x)")
      simp_all
  have clauses:
    "Stringify (SelectStmt (col # cols) fr wh gr hv ob li off) c =
     andThen (Stringify (SelectStmt (col # cols) None None None None None None None) c) (\<lambda>c2.
     andThen (optionalClause fr c2) (\<lambda>c3.
     andThen (optionalClause wh c3) (\<lambda>c4.
     andThen (optionalClause gr c4) (\<lambda>c5.
     andThen (optionalClause hv c5) (\<lambda>c6.
     andThen (optionalClause ob c6) (\<lambda>c7.
     andThen (optionalClause li c7) (\<lambda>c8.
     optionalClause off c8)))))))"
    unfolding plain
    by (cases "Stringify col (WriteVerbatim c ''SELECT '')";
        cases "commaLoop cols (case Stringify col (WriteVerbatim c ''SELECT '') of Done x \<Rightarrow> x)")
      (simp_all add: optionalClause_def andThen_Done)
  have simple:
    "Stringify
       (SelectStmt (map (\<lambda>(n, l). LabeledColumn (Column [] n) l) ((n1, l1) # ps))
          None None None None None None None) c =
     Done (c\<lparr>buffer := buffer c @ ''SELECT '' @ quoteIdentifier c n1 @ '' '' @
       quoteIdentifier c l1 @
       concat (map (\<lambda>(n, l). '','' @ quoteIdentifier c n @ '' '' @ quoteIdentifier c l) ps)\<rparr>)"
    by (simp add: commaLoop_columns WriteVerbatim_def WriteIdentifier_def)
  show ?thesis
    using plain clauses simple by simp
qed

section \<open>What a print pass leaves unchanged\<close>

text \<open>
  Printing only appends: to the text, and (through \<open>insertPlaceholder\<close>) to the table of
  bindings. The tables and rules of the dialect stay as they are. \<open>frame c c'\<close> says that
  \<open>c'\<close> is \<open>c\<close> after such appending; \<open>frameR\<close> says it of the compiler a printer hands
  back, whether it returned nil or an error.
\<close>

text \<open>
  The bindings are sequential when the positions are 1, 2, 3 and so on in the order of
  insertion and every name is bound once.
\<close>

definition sequential :: "Compiler \<Rightarrow> bool" where
  "sequential c =
     (map snd (bindings c) = [1..<Suc (length (bindings c))] \<and>
      distinct (map fst (bindings c)))"

definition frame :: "Compiler \<Rightarrow> Compiler \<Rightarrow> bool" where
  "frame c c' =
     (precedenceTable c' = precedenceTable c \<and> associativityTable c' = associativityTable c \<and>
      quoteIdentifier c' = quoteIdentifier c \<and> renderPlaceholder c' = renderPlaceholder c \<and>
      (\<exists>t. buffer c' = buffer c @ t) \<and> (\<exists>bs. bindings c' = bindings c @ bs) \<and>
      (sequential c \<longrightarrow> sequential c'))"

lemma sequential_buffer [simp]: "sequential (c\<lparr>buffer := b\<rparr>) = sequential c"
  by (simp add: sequential_def)

lemma sequential_insertPlaceholder:
  assumes "insertPlaceholder c p = (pos, c1)" and "sequential c"
  shows "sequential c1"
proof (cases "map_of (bindings c) p")
  case None
  then have "p \<notin> fst ` set (bindings c)"
    by (simp add: map_of_eq_None_iff)
  moreover have "c1 = c\<lparr>bindings := bindings c @ [(p, Suc (length (bindings c)))]\<rparr>"
    using assms(1) None by (auto simp: insertPlaceholder_def Let_def)
  ultimately show ?thesis
    using assms(2) by (simp add: sequential_def)
next
  case (Some a)
  then have "c1 = c"
    using assms(1) by (simp add: insertPlaceholder_def)
  then show ?thesis
    using assms(2) by simp
qed

fun frameR :: "Compiler \<Rightarrow> result \<Rightarrow> bool" where
  "frameR c (Done c') = frame c c'"
| "frameR c (Failed e c') = frame c c'"
| "frameR c Panicked = True"

lemma frame_refl [simp]: "frame c c"
  by (simp add: frame_def)

lemma frame_trans: "frame a b \<Longrightarrow> frame b c \<Longrightarrow> frame a c"
  by (auto simp: frame_def)

lemma frame_WriteVerbatim [simp]: "frame c0 c \<Longrightarrow> frame c0 (WriteVerbatim c s)"
  by (auto simp: frame_def WriteVerbatim_def)

lemma frame_WriteIdentifier [simp]: "frame c0 c \<Longrightarrow> frame c0 (WriteIdentifier c s)"
  by (auto simp: frame_def WriteIdentifier_def)

lemma frame_insertPlaceholder:
  "insertPlaceholder c p = (pos, c1) \<Longrightarrow> frame c0 c \<Longrightarrow> frame c0 c1"
  using sequential_insertPlaceholder [of c p pos c1]
  by (auto simp: frame_def insertPlaceholder_def Let_def split: option.splits)

lemma frameR_andThen:
  "frameR c0 r \<Longrightarrow> (\<And>c1. r = Done c1 \<Longrightarrow> frame c0 c1 \<Longrightarrow> frameR c0 (f c1)) \<Longrightarrow>
     frameR c0 (andThen r f)"
  by (cases r) simp_all

text \<open>
  By induction along the calls of the printers. Each case unfolds the equation of the
  printer at hand once and leaves the printers it calls folded, so that the induction
  hypotheses apply as they are.
\<close>

lemma frame_printers:
  "\<forall>c0. frame c0 c \<longrightarrow> frameR c0 (Stringify n c)"
  "\<forall>c0. frame c0 c \<longrightarrow> frameR c0 (stringifyParen n c)"
  "\<forall>c0. frame c0 c \<longrightarrow> frameR c0 (stringifyCommaSeparated ns c)"
  "\<forall>c0. frame c0 c \<longrightarrow> frameR c0 (commaLoop ns c)"
  "\<forall>c0. frame c0 c \<longrightarrow> frameR c0 (whenLoop cs rs c)"
  "\<forall>c0. frame c0 c \<longrightarrow> frameR c0 (unaryWrite a sy n b c)"
  "\<forall>c0. frame c0 c \<longrightarrow> frameR c0 (handleSide a p n ta c)"
  "\<forall>c0. frame c0 c \<longrightarrow> frameR c0 (handleExpr p n c)"
proof (induction n c and n c and ns c and ns c and cs rs c and a sy n b c and a p n ta c
    and p n c
    rule: Stringify_stringifyParen_stringifyCommaSeparated_commaLoop_whenLoop_unaryWrite_handleSide_handleExpr.induct)
qed ((subst Stringify.simps stringifyParen.simps stringifyCommaSeparated.simps commaLoop.simps
      whenLoop.simps unaryWrite.simps handleSide.simps handleExpr.simps),
    (auto intro!: frameR_andThen frame_WriteVerbatim frame_WriteIdentifier
      intro: frame_insertPlaceholder simp: Let_def
      split: option.split sum.split prod.split
      simp del: Stringify.simps stringifyParen.simps stringifyCommaSeparated.simps
        commaLoop.simps whenLoop.simps unaryWrite.simps handleSide.simps handleExpr.simps)[1])+

lemma frame_Stringify: "Stringify n c = Done c' \<Longrightarrow> frame c c'"
  using frame_printers(1) [of c n] by (auto simp del: Stringify.simps)

lemma frame_stringifyParen: "stringifyParen n c = Done c' \<Longrightarrow> frame c c'"
  using frame_printers(2) [of c n] by (auto simp del: stringifyParen.simps)

lemma resolve_frame:
  "frame c c' \<Longrightarrow> resolveOperatorPrecedence e c' = resolveOperatorPrecedence e c"
  "frame c c' \<Longrightarrow> resolveOperatorAssociativity e c' = resolveOperatorAssociativity e c"
  by (simp_all add: frame_def resolve_defs)

lemma andThen_same:
  "(\<And>c1. r = Done c1 \<Longrightarrow> f c1 = g c1) \<Longrightarrow> andThen r f = andThen r g"
  by (cases r) simp_all

section \<open>Parenthesization\<close>

text \<open>
  The rules of the spec, in its words, to be compared with what the printers do. The
  first argument of each is what the rule is given about the parent, the last the
  resolved precedence of the child.
\<close>

definition spec_binary_left_paren :: "Associativity \<Rightarrow> nat \<Rightarrow> nat \<Rightarrow> bool" where
  "spec_binary_left_paren assoc ownPrec childPrec =
     ((assoc = NonAssociative \<and> childPrec \<le> ownPrec) \<or>
      (assoc \<noteq> NonAssociative \<and>
         (childPrec < ownPrec \<or> (childPrec = ownPrec \<and> assoc = RightAssociative))))"

definition spec_binary_right_paren :: "Associativity \<Rightarrow> nat \<Rightarrow> nat \<Rightarrow> bool" where
  "spec_binary_right_paren assoc ownPrec childPrec =
     ((assoc = NonAssociative \<and> childPrec \<le> ownPrec) \<or>
      (assoc \<noteq> NonAssociative \<and>
         (childPrec < ownPrec \<or> (childPrec = ownPrec \<and> assoc = LeftAssociative))))"

definition spec_unary_paren :: "nat \<Rightarrow> nat \<Rightarrow> bool" where
  "spec_unary_paren ownPrec childPrec = (childPrec < ownPrec)"

definition spec_ternary_paren :: "nat \<Rightarrow> nat \<Rightarrow> bool" where
  "spec_ternary_paren ownPrec childPrec = (childPrec \<le> ownPrec)"

text \<open>
  A child printed with or without parentheses; and a child printed under a rule: as it
  is when it is not an operator, and otherwise wrapped exactly when the rule holds of
  its resolved precedence.
\<close>

definition wrapIf :: "bool \<Rightarrow> Node \<Rightarrow> Compiler \<Rightarrow> result" where
  "wrapIf paren e c = (if paren then stringifyParen e c else Stringify e c)"

definition renderChild :: "(nat \<Rightarrow> bool) \<Rightarrow> Node \<Rightarrow> Compiler \<Rightarrow> result" where
  "renderChild rule e c =
     (if \<not> isOperator e then wrapIf False e c
      else
        (case resolveOperatorPrecedence e c of
           Inl err \<Rightarrow> Failed err c
         | Inr childPrec \<Rightarrow> wrapIf (rule childPrec) e c))"

lemma andThen_Done: "andThen r Done = r"
  by (cases r) simp_all

lemma frameR_renderChild: "frameR c (renderChild rule e c)"
  using frame_printers(1) [of c e] frame_printers(2) [of c e]
  by (simp add: renderChild_def wrapIf_def del: Stringify.simps stringifyParen.simps
      split: sum.split)

lemma frame_renderChild: "renderChild rule e c = Done c' \<Longrightarrow> frame c c'"
  using frameR_renderChild [of c rule e] by simp

lemma handleSide_left:
  "handleSide assoc ownPrec e RightAssociative c =
     renderChild (spec_binary_left_paren assoc ownPrec) e c"
  by (simp add: renderChild_def wrapIf_def spec_binary_left_paren_def split: sum.split)

lemma handleSide_right:
  "handleSide assoc ownPrec e LeftAssociative c =
     renderChild (spec_binary_right_paren assoc ownPrec) e c"
  by (simp add: renderChild_def wrapIf_def spec_binary_right_paren_def split: sum.split)

lemma handleExpr_rule:
  "handleExpr ownPrec e c = renderChild (spec_ternary_paren ownPrec) e c"
  by (simp add: renderChild_def wrapIf_def spec_ternary_paren_def split: sum.split)

lemma resolve_Sub:
  "resolveOperatorAssociativity (Sub x y) c =
     (if associativityTable c OpSub \<noteq> 0 then Inr (associativityTable c OpSub)
      else Inl ErrNoAssociativity)"
  "resolveOperatorPrecedence (Sub x y) c =
     (if precedenceTable c OpSub \<noteq> 0 then Inr (precedenceTable c OpSub)
      else Inl ErrNoPrecedence)"
  "isOperator (Sub x y)"
  by (simp_all add: Sub_def resolve_defs)

lemma Stringify_binary:
  assumes "resolveOperatorAssociativity (BinaryOperator t s nt ns l r cp ca sp) c = Inr assoc"
    and "resolveOperatorPrecedence (BinaryOperator t s nt ns l r cp ca sp) c = Inr ownPrec"
  shows "Stringify (BinaryOperator t s nt ns l r cp ca sp) c =
       andThen (renderChild (spec_binary_left_paren assoc ownPrec) l c) (\<lambda>c1.
       renderChild (spec_binary_right_paren assoc ownPrec) r
         (WriteVerbatim c1 (if sp then s else '' '' @ s @ '' '')))"
  using assms by (simp add: handleSide_left handleSide_right del: handleSide.simps)

lemma Stringify_Sub:
  assumes "associativityTable c OpSub = LeftAssociative" and "precedenceTable c OpSub \<noteq> 0"
  shows "Stringify (Sub x y) c =
       andThen (renderChild (spec_binary_left_paren LeftAssociative (precedenceTable c OpSub))
         x c) (\<lambda>c1.
       renderChild (spec_binary_right_paren LeftAssociative (precedenceTable c OpSub)) y
         (WriteVerbatim c1 '' - ''))"
proof -
  have "resolveOperatorAssociativity (BinaryOperator OpSub ''-'' 0 [] x y 0 0 False) c =
      Inr LeftAssociative"
    and "resolveOperatorPrecedence (BinaryOperator OpSub ''-'' 0 [] x y 0 0 False) c =
      Inr (precedenceTable c OpSub)"
    using assms resolve_Sub(1,2) [of x y c] by (simp_all add: Sub_def LeftAssociative_def)
  from Stringify_binary [OF this] show ?thesis
    by (simp add: Sub_def del: Stringify.simps)
qed

lemma isOperator_iff:
  "isOperator e \<longleftrightarrow>
     (\<exists>t s nt ns x cp ca. e = UnaryOperator t s nt ns x cp ca) \<or>
     (\<exists>t s nt ns l r cp ca sp. e = BinaryOperator t s nt ns l r cp ca sp) \<or>
     (\<exists>t s1 s2 nt ns1 ns2 e1 e2 e3 cp ca.
        e = TernaryOperator t s1 s2 nt ns1 ns2 e1 e2 e3 cp ca)"
  by (cases e) simp_all

lemma renderChild_leaf: "\<not> isOperator e \<Longrightarrow> renderChild rule e c = Stringify e c"
  by (simp add: renderChild_def wrapIf_def)

lemma renderChild_operator:
  "isOperator e \<Longrightarrow> resolveOperatorPrecedence e c = Inr childPrec \<Longrightarrow>
     renderChild rule e c = (if rule childPrec then stringifyParen e c else Stringify e c)"
  by (simp add: renderChild_def wrapIf_def)

text \<open>
  C1. A binary operator whose associativity resolves to \<open>assoc\<close> and whose precedence
  resolves to \<open>ownPrec\<close> (each the override of the node when that is not zero, else the
  entry of the dialect) prints its left child, its symbol (with a space on each side
  unless the spaces are suppressed) and its right child. A child that is an operator
  with resolved precedence \<open>childPrec\<close> is wrapped in parentheses exactly when the rule
  of the spec holds, with the tie broken towards Right for the left child and towards
  Left for the right child; a child that is not an operator is never wrapped. The
  operators are the three operator structs, and the precedence of a child does not
  depend on what was printed before it. Under a left-associative \<^verbatim>\<open>SUB\<close>, the left
  child of \<^verbatim>\<open>SUB(SUB(a,b),d)\<close> is printed without parentheses and the right child of
  \<^verbatim>\<open>SUB(a,SUB(b,d))\<close> with them.
\<close>

theorem binary_parentheses:
  assumes "assoc = (if ca \<noteq> 0 then ca else associativityTable c t)" and "assoc \<noteq> 0"
    and "ownPrec = (if cp \<noteq> 0 then cp else precedenceTable c t)" and "ownPrec \<noteq> 0"
  shows
    "Stringify (BinaryOperator t s nt ns l r cp ca sp) c =
       andThen (renderChild (spec_binary_left_paren assoc ownPrec) l c) (\<lambda>c1.
       renderChild (spec_binary_right_paren assoc ownPrec) r
         (WriteVerbatim c1 (if sp then s else '' '' @ s @ '' ''))) \<and>
     (\<forall>rule e c'. \<not> isOperator e \<longrightarrow> renderChild rule e c' = Stringify e c') \<and>
     (\<forall>rule e c' childPrec.
        isOperator e \<and> resolveOperatorPrecedence e c' = Inr childPrec \<longrightarrow>
        renderChild rule e c' =
          (if rule childPrec then stringifyParen e c' else Stringify e c')) \<and>
     (\<forall>e c'. stringifyParen e c' =
        andThen (Stringify e (WriteVerbatim c' ''('')) (\<lambda>c1. Done (WriteVerbatim c1 '')''))) \<and>
     (\<forall>e. isOperator e \<longleftrightarrow>
        (\<exists>t s nt ns x cp ca. e = UnaryOperator t s nt ns x cp ca) \<or>
        (\<exists>t s nt ns l r cp ca sp. e = BinaryOperator t s nt ns l r cp ca sp) \<or>
        (\<exists>t s1 s2 nt ns1 ns2 e1 e2 e3 cp ca.
           e = TernaryOperator t s1 s2 nt ns1 ns2 e1 e2 e3 cp ca)) \<and>
     (\<forall>e c'. frame c c' \<longrightarrow> resolveOperatorPrecedence e c' = resolveOperatorPrecedence e c) \<and>
     (associativityTable c OpSub = LeftAssociative \<and> precedenceTable c OpSub \<noteq> 0 \<longrightarrow>
        Stringify (Sub (Sub a b) d) c =
          andThen (Stringify (Sub a b) c) (\<lambda>c1.
          renderChild (spec_binary_right_paren LeftAssociative (precedenceTable c OpSub)) d
            (WriteVerbatim c1 '' - '')) \<and>
        Stringify (Sub a (Sub b d)) c =
          andThen (renderChild (spec_binary_left_paren LeftAssociative (precedenceTable c OpSub))
            a c) (\<lambda>c1.
          stringifyParen (Sub b d) (WriteVerbatim c1 '' - '')))"
proof (intro conjI allI impI)
  show "Stringify (BinaryOperator t s nt ns l r cp ca sp) c =
       andThen (renderChild (spec_binary_left_paren assoc ownPrec) l c) (\<lambda>c1.
       renderChild (spec_binary_right_paren assoc ownPrec) r
         (WriteVerbatim c1 (if sp then s else '' '' @ s @ '' '')))"
  proof (rule Stringify_binary)
    show "resolveOperatorAssociativity (BinaryOperator t s nt ns l r cp ca sp) c = Inr assoc"
      using assms(1,2) by (auto simp: resolve_defs split: if_splits)
    show "resolveOperatorPrecedence (BinaryOperator t s nt ns l r cp ca sp) c = Inr ownPrec"
      using assms(3,4) by (auto simp: resolve_defs split: if_splits)
  qed
next
  fix rule e c'
  assume "\<not> isOperator e"
  then show "renderChild rule e c' = Stringify e c'"
    by (rule renderChild_leaf)
next
  fix rule e c' childPrec
  assume "isOperator e \<and> resolveOperatorPrecedence e c' = Inr childPrec"
  then show "renderChild rule e c' =
      (if rule childPrec then stringifyParen e c' else Stringify e c')"
    using renderChild_operator [of e c' childPrec rule] by blast
next
  fix e c'
  show "stringifyParen e c' =
      andThen (Stringify e (WriteVerbatim c' ''('')) (\<lambda>c1. Done (WriteVerbatim c1 '')''))"
    by simp
next
  fix e
  show "isOperator e \<longleftrightarrow>
        (\<exists>t s nt ns x cp ca. e = UnaryOperator t s nt ns x cp ca) \<or>
        (\<exists>t s nt ns l r cp ca sp. e = BinaryOperator t s nt ns l r cp ca sp) \<or>
        (\<exists>t s1 s2 nt ns1 ns2 e1 e2 e3 cp ca.
           e = TernaryOperator t s1 s2 nt ns1 ns2 e1 e2 e3 cp ca)"
    by (rule isOperator_iff)
next
  fix e c'
  assume "frame c c'"
  then show "resolveOperatorPrecedence e c' = resolveOperatorPrecedence e c"
    by (rule resolve_frame(1))
next
  assume "associativityTable c OpSub = LeftAssociative \<and> precedenceTable c OpSub \<noteq> 0"
  then have tab: "associativityTable c OpSub = LeftAssociative" "precedenceTable c OpSub \<noteq> 0"
    by simp_all
  have "renderChild (spec_binary_left_paren LeftAssociative (precedenceTable c OpSub))
      (Sub a b) c = Stringify (Sub a b) c"
    using tab
    by (simp add: renderChild_operator [of _ _ "precedenceTable c OpSub"] resolve_Sub
        spec_binary_left_paren_def op_defs)
  then show "Stringify (Sub (Sub a b) d) c =
      andThen (Stringify (Sub a b) c) (\<lambda>c1.
      renderChild (spec_binary_right_paren LeftAssociative (precedenceTable c OpSub)) d
        (WriteVerbatim c1 '' - ''))"
    using Stringify_Sub [OF tab, of "Sub a b" d] by simp
next
  assume "associativityTable c OpSub = LeftAssociative \<and> precedenceTable c OpSub \<noteq> 0"
  then have tab: "associativityTable c OpSub = LeftAssociative" "precedenceTable c OpSub \<noteq> 0"
    by simp_all
  have paren: "renderChild (spec_binary_right_paren LeftAssociative (precedenceTable c OpSub))
      (Sub b d) (WriteVerbatim c1 '' - '') = stringifyParen (Sub b d) (WriteVerbatim c1 '' - '')"
    if "renderChild (spec_binary_left_paren LeftAssociative (precedenceTable c OpSub)) a c
      = Done c1" for c1
  proof -
    have "frame c (WriteVerbatim c1 '' - '')"
      using frame_renderChild [OF that] by simp
    then have "precedenceTable (WriteVerbatim c1 '' - '') = precedenceTable c"
      by (simp add: frame_def)
    then show ?thesis
      using tab
      by (simp add: renderChild_operator [of _ _ "precedenceTable c OpSub"] resolve_Sub
          spec_binary_right_paren_def op_defs del: stringifyParen.simps)
  qed
  show "Stringify (Sub a (Sub b d)) c =
      andThen (renderChild (spec_binary_left_paren LeftAssociative (precedenceTable c OpSub))
        a c) (\<lambda>c1.
      stringifyParen (Sub b d) (WriteVerbatim c1 '' - ''))"
    unfolding Stringify_Sub [OF tab, of a "Sub b d"] by (rule andThen_same) (erule paren)
qed

theorem binary_parentheses_witness:
  "Stringify (Sub (Sub (Column [] ''a'') (Column [] ''b'')) (Column [] ''c'')) exampleDialect =
     Done (exampleDialect\<lparr>buffer := ''a - b - c''\<rparr>) \<and>
   Stringify (Sub (Column [] ''a'') (Sub (Column [] ''b'') (Column [] ''c''))) exampleDialect =
     Done (exampleDialect\<lparr>buffer := ''a - (b - c)''\<rparr>) \<and>
   Stringify (Eq (Eq (Column [] ''a'') (Column [] ''b'')) (Column [] ''c'')) exampleDialect =
     Done (exampleDialect\<lparr>buffer := ''(a = b) = c''\<rparr>) \<and>
   Stringify
     (And (Eq (Column [] ''a'') (Column [] ''x''))
        (Or (Eq (Column [] ''b'') (Column [] ''y'')) (Eq (Column [] ''c'') (Column [] ''z''))))
     exampleDialect = Done (exampleDialect\<lparr>buffer := ''a = x AND (b = y OR c = z)''\<rparr>) \<and>
   Stringify
     (BinaryOperator OpSub ''-'' 0 [] (Column [] ''a'')
        (Sub (Column [] ''b'') (Column [] ''c'')) 0 RightAssociative True)
     exampleDialect = Done (exampleDialect\<lparr>buffer := ''a-b - c''\<rparr>)"
proof -
  have a1: "LeftAssociative = (if (0 :: nat) \<noteq> 0 then 0 else associativityTable exampleDialect OpSub)"
    and a2: "LeftAssociative \<noteq> 0"
    and a3: "7 = (if (0 :: nat) \<noteq> 0 then 0 else precedenceTable exampleDialect OpSub)"
    and a4: "(7 :: nat) \<noteq> 0"
    by (simp_all add: exampleDialect_def op_defs)
  note inst = binary_parentheses [OF a1 a2 a3 a4, where s = "''-''" and nt = 0 and ns = "[]"
      and l = "Sub (Column [] ''a'') (Column [] ''b'')" and r = "Column [] ''c''"
      and sp = False and a = "Column [] ''a''" and b = "Column [] ''b''"
      and d = "Column [] ''c''"]
  have step: "Stringify (Sub (Sub (Column [] ''a'') (Column [] ''b'')) (Column [] ''c''))
      exampleDialect =
      andThen (renderChild (spec_binary_left_paren LeftAssociative 7)
        (Sub (Column [] ''a'') (Column [] ''b'')) exampleDialect) (\<lambda>c1.
      renderChild (spec_binary_right_paren LeftAssociative 7) (Column [] ''c'')
        (WriteVerbatim c1 (if False then ''-'' else '' '' @ ''-'' @ '' '')))"
    unfolding Sub_def [of "Sub (Column [] ''a'') (Column [] ''b'')" "Column [] ''c''"]
    using inst by (rule conjunct1)
  have "Stringify (Sub (Sub (Column [] ''a'') (Column [] ''b'')) (Column [] ''c''))
      exampleDialect = Done (exampleDialect\<lparr>buffer := ''a - b - c''\<rparr>)"
    unfolding step
    by (simp add: renderChild_def wrapIf_def spec_binary_left_paren_def
        spec_binary_right_paren_def ctor_defs eval_defs op_defs)
  moreover have
    "Stringify (Sub (Column [] ''a'') (Sub (Column [] ''b'') (Column [] ''c''))) exampleDialect =
       Done (exampleDialect\<lparr>buffer := ''a - (b - c)''\<rparr>)"
    "Stringify (Eq (Eq (Column [] ''a'') (Column [] ''b'')) (Column [] ''c'')) exampleDialect =
       Done (exampleDialect\<lparr>buffer := ''(a = b) = c''\<rparr>)"
    "Stringify
       (And (Eq (Column [] ''a'') (Column [] ''x''))
          (Or (Eq (Column [] ''b'') (Column [] ''y'')) (Eq (Column [] ''c'') (Column [] ''z''))))
       exampleDialect = Done (exampleDialect\<lparr>buffer := ''a = x AND (b = y OR c = z)''\<rparr>)"
    "Stringify
       (BinaryOperator OpSub ''-'' 0 [] (Column [] ''a'')
          (Sub (Column [] ''b'') (Column [] ''c'')) 0 RightAssociative True)
       exampleDialect = Done (exampleDialect\<lparr>buffer := ''a-b - c''\<rparr>)"
    by (simp_all add: ctor_defs eval_defs op_defs)
  ultimately show ?thesis
    by (simp only: simp_thms)
qed

text \<open>
  C3. A ternary operator whose precedence resolves to \<open>ownPrec\<close> prints its first
  child, its first symbol, its second child, its second symbol and its third child,
  each symbol with a space on each side. Each child that is an operator is wrapped in
  parentheses exactly when its resolved precedence is at most \<open>ownPrec\<close>, so that a tie
  forces parentheses; a child that is not an operator is never wrapped.
\<close>

theorem ternary_parentheses:
  assumes "ownPrec = (if cp \<noteq> 0 then cp else precedenceTable c t)" and "ownPrec \<noteq> 0"
  shows
    "Stringify (TernaryOperator t s1 s2 nt ns1 ns2 e1 e2 e3 cp ca) c =
       andThen (renderChild (spec_ternary_paren ownPrec) e1 c) (\<lambda>c1.
       andThen (renderChild (spec_ternary_paren ownPrec) e2
                  (WriteVerbatim c1 ('' '' @ s1 @ '' ''))) (\<lambda>c2.
       renderChild (spec_ternary_paren ownPrec) e3 (WriteVerbatim c2 ('' '' @ s2 @ '' '')))) \<and>
     (\<forall>e c'. \<not> isOperator e \<longrightarrow>
        renderChild (spec_ternary_paren ownPrec) e c' = Stringify e c') \<and>
     (\<forall>e c' childPrec.
        isOperator e \<and> resolveOperatorPrecedence e c' = Inr childPrec \<longrightarrow>
        renderChild (spec_ternary_paren ownPrec) e c' =
          (if childPrec \<le> ownPrec then stringifyParen e c' else Stringify e c')) \<and>
     (\<forall>e c'. isOperator e \<and> resolveOperatorPrecedence e c' = Inr ownPrec \<longrightarrow>
        renderChild (spec_ternary_paren ownPrec) e c' = stringifyParen e c') \<and>
     (\<forall>e c'. stringifyParen e c' =
        andThen (Stringify e (WriteVerbatim c' ''('')) (\<lambda>c1. Done (WriteVerbatim c1 '')''))) \<and>
     (\<forall>e. isOperator e \<longleftrightarrow>
        (\<exists>t s nt ns x cp ca. e = UnaryOperator t s nt ns x cp ca) \<or>
        (\<exists>t s nt ns l r cp ca sp. e = BinaryOperator t s nt ns l r cp ca sp) \<or>
        (\<exists>t s1 s2 nt ns1 ns2 e1 e2 e3 cp ca.
           e = TernaryOperator t s1 s2 nt ns1 ns2 e1 e2 e3 cp ca)) \<and>
     (\<forall>e c'. frame c c' \<longrightarrow> resolveOperatorPrecedence e c' = resolveOperatorPrecedence e c)"
proof (intro conjI allI impI)
  have "resolveOperatorPrecedence (TernaryOperator t s1 s2 nt ns1 ns2 e1 e2 e3 cp ca) c =
      Inr ownPrec"
    using assms by (auto simp: resolve_defs split: if_splits)
  then show "Stringify (TernaryOperator t s1 s2 nt ns1 ns2 e1 e2 e3 cp ca) c =
       andThen (renderChild (spec_ternary_paren ownPrec) e1 c) (\<lambda>c1.
       andThen (renderChild (spec_ternary_paren ownPrec) e2
                  (WriteVerbatim c1 ('' '' @ s1 @ '' ''))) (\<lambda>c2.
       renderChild (spec_ternary_paren ownPrec) e3 (WriteVerbatim c2 ('' '' @ s2 @ '' ''))))"
    by (simp add: handleExpr_rule del: handleExpr.simps)
next
  fix e c'
  assume "\<not> isOperator e"
  then show "renderChild (spec_ternary_paren ownPrec) e c' = Stringify e c'"
    by (rule renderChild_leaf)
next
  fix e c' childPrec
  assume "isOperator e \<and> resolveOperatorPrecedence e c' = Inr childPrec"
  then show "renderChild (spec_ternary_paren ownPrec) e c' =
      (if childPrec \<le> ownPrec then stringifyParen e c' else Stringify e c')"
    using renderChild_operator [of e c' childPrec "spec_ternary_paren ownPrec"]
    by (simp add: spec_ternary_paren_def del: stringifyParen.simps Stringify.simps)
next
  fix e c'
  assume "isOperator e \<and> resolveOperatorPrecedence e c' = Inr ownPrec"
  then show "renderChild (spec_ternary_paren ownPrec) e c' = stringifyParen e c'"
    using renderChild_operator [of e c' ownPrec "spec_ternary_paren ownPrec"]
    by (simp add: spec_ternary_paren_def del: stringifyParen.simps Stringify.simps)
next
  fix e c'
  show "stringifyParen e c' =
      andThen (Stringify e (WriteVerbatim c' ''('')) (\<lambda>c1. Done (WriteVerbatim c1 '')''))"
    by simp
next
  fix e
  show "isOperator e \<longleftrightarrow>
        (\<exists>t s nt ns x cp ca. e = UnaryOperator t s nt ns x cp ca) \<or>
        (\<exists>t s nt ns l r cp ca sp. e = BinaryOperator t s nt ns l r cp ca sp) \<or>
        (\<exists>t s1 s2 nt ns1 ns2 e1 e2 e3 cp ca.
           e = TernaryOperator t s1 s2 nt ns1 ns2 e1 e2 e3 cp ca)"
    by (rule isOperator_iff)
next
  fix e c'
  assume "frame c c'"
  then show "resolveOperatorPrecedence e c' = resolveOperatorPrecedence e c"
    by (rule resolve_frame(1))
qed

theorem ternary_parentheses_witness:
  "Stringify
     (Between (Between (Column [] ''a'') (Column [] ''b'') (Column [] ''c'')) (Column [] ''d'')
        (Column [] ''e'')) exampleDialect =
     Done (exampleDialect\<lparr>buffer := ''(a BETWEEN b AND c) BETWEEN d AND e''\<rparr>) \<and>
   Stringify
     (Between (Column [] ''a'') (Add (Column [] ''b'') (Column [] ''c''))
        (Eq (Column [] ''d'') (Column [] ''e''))) exampleDialect =
     Done (exampleDialect\<lparr>buffer := ''a BETWEEN b + c AND (d = e)''\<rparr>)"
proof -
  have a1: "5 = (if (0 :: nat) \<noteq> 0 then 0 else precedenceTable exampleDialect OpBetween)"
    and a2: "(5 :: nat) \<noteq> 0"
    by (simp_all add: exampleDialect_def op_defs)
  note inst = ternary_parentheses [OF a1 a2, where ?s1.0 = "''BETWEEN''" and ?s2.0 = "''AND''"
      and nt = OpNotBetween and ?ns1.0 = "''NOT BETWEEN''" and ?ns2.0 = "''AND''"
      and ?e1.0 = "Between (Column [] ''a'') (Column [] ''b'') (Column [] ''c'')"
      and ?e2.0 = "Column [] ''d''" and ?e3.0 = "Column [] ''e''" and ca = 0]
  have step: "Stringify
      (Between (Between (Column [] ''a'') (Column [] ''b'') (Column [] ''c'')) (Column [] ''d'')
         (Column [] ''e'')) exampleDialect =
      andThen (renderChild (spec_ternary_paren 5)
        (Between (Column [] ''a'') (Column [] ''b'') (Column [] ''c'')) exampleDialect) (\<lambda>c1.
      andThen (renderChild (spec_ternary_paren 5) (Column [] ''d'')
        (WriteVerbatim c1 ('' '' @ ''BETWEEN'' @ '' ''))) (\<lambda>c2.
      renderChild (spec_ternary_paren 5) (Column [] ''e'')
        (WriteVerbatim c2 ('' '' @ ''AND'' @ '' ''))))"
    unfolding Between_def [of "Between (Column [] ''a'') (Column [] ''b'') (Column [] ''c'')"
        "Column [] ''d''" "Column [] ''e''"]
    using inst by (rule conjunct1)
  have "Stringify
      (Between (Between (Column [] ''a'') (Column [] ''b'') (Column [] ''c'')) (Column [] ''d'')
         (Column [] ''e'')) exampleDialect =
      Done (exampleDialect\<lparr>buffer := ''(a BETWEEN b AND c) BETWEEN d AND e''\<rparr>)"
    unfolding step
    by (simp add: renderChild_def wrapIf_def spec_ternary_paren_def ctor_defs eval_defs op_defs)
  moreover have "Stringify
     (Between (Column [] ''a'') (Add (Column [] ''b'') (Column [] ''c''))
        (Eq (Column [] ''d'') (Column [] ''e''))) exampleDialect =
     Done (exampleDialect\<lparr>buffer := ''a BETWEEN b + c AND (d = e)''\<rparr>)"
    by (simp add: ctor_defs eval_defs op_defs)
  ultimately show ?thesis
    by (simp only: simp_thms)
qed

text \<open>
  C4. A unary operator whose associativity resolves to NonAssociative fails to print,
  with \<open>ErrNonAssociative\<close> and nothing written. Otherwise, with its precedence resolved
  to \<open>ownPrec\<close>: when the associativity is Right the symbol is a prefix (the symbol, a
  space, the operand), when it is Left a suffix (the operand, a space, the symbol). The
  operand is wrapped in parentheses exactly when it is an operator whose resolved
  precedence is less than \<open>ownPrec\<close>: equal precedence never forces parentheses. The
  precedence of the operand is resolved before anything is written. With a resolved
  associativity that is none of the three, the operand is printed under the same rule
  and the symbol is not written.
\<close>

theorem unary_parentheses:
  assumes "assoc = (if ca \<noteq> 0 then ca else associativityTable c t)"
    and "ownPrec = (if cp \<noteq> 0 then cp else precedenceTable c t)"
  shows
    "(assoc = NonAssociative \<longrightarrow>
        Stringify (UnaryOperator t s nt ns e cp ca) c = Failed ErrNonAssociative c) \<and>
     (assoc = RightAssociative \<and> ownPrec \<noteq> 0 \<longrightarrow>
        Stringify (UnaryOperator t s nt ns e cp ca) c =
          (if \<not> isOperator e then Stringify e (WriteVerbatim c (s @ '' ''))
           else
             (case resolveOperatorPrecedence e c of
                Inl err \<Rightarrow> Failed err c
              | Inr childPrec \<Rightarrow>
                  if spec_unary_paren ownPrec childPrec
                  then stringifyParen e (WriteVerbatim c (s @ '' ''))
                  else Stringify e (WriteVerbatim c (s @ '' ''))))) \<and>
     (assoc = LeftAssociative \<and> ownPrec \<noteq> 0 \<longrightarrow>
        Stringify (UnaryOperator t s nt ns e cp ca) c =
          andThen
            (if \<not> isOperator e then Stringify e c
             else
               (case resolveOperatorPrecedence e c of
                  Inl err \<Rightarrow> Failed err c
                | Inr childPrec \<Rightarrow>
                    if spec_unary_paren ownPrec childPrec then stringifyParen e c
                    else Stringify e c))
            (\<lambda>c1. Done (WriteVerbatim c1 ('' '' @ s)))) \<and>
     (assoc \<noteq> 0 \<and> assoc \<noteq> NonAssociative \<and> assoc \<noteq> RightAssociative \<and>
      assoc \<noteq> LeftAssociative \<and> ownPrec \<noteq> 0 \<longrightarrow>
        Stringify (UnaryOperator t s nt ns e cp ca) c =
          (if \<not> isOperator e then Stringify e c
           else
             (case resolveOperatorPrecedence e c of
                Inl err \<Rightarrow> Failed err c
              | Inr childPrec \<Rightarrow>
                  if spec_unary_paren ownPrec childPrec then stringifyParen e c
                  else Stringify e c))) \<and>
     (\<forall>childPrec. spec_unary_paren ownPrec childPrec \<longleftrightarrow> childPrec < ownPrec) \<and>
     \<not> spec_unary_paren ownPrec ownPrec \<and>
     (\<forall>x c'. stringifyParen x c' =
        andThen (Stringify x (WriteVerbatim c' ''('')) (\<lambda>c1. Done (WriteVerbatim c1 '')''))) \<and>
     (\<forall>x. isOperator x \<longleftrightarrow>
        (\<exists>t s nt ns y cp ca. x = UnaryOperator t s nt ns y cp ca) \<or>
        (\<exists>t s nt ns l r cp ca sp. x = BinaryOperator t s nt ns l r cp ca sp) \<or>
        (\<exists>t s1 s2 nt ns1 ns2 e1 e2 e3 cp ca.
           x = TernaryOperator t s1 s2 nt ns1 ns2 e1 e2 e3 cp ca))"
proof (intro conjI allI impI)
  assume "assoc = NonAssociative"
  then have "resolveOperatorAssociativity (UnaryOperator t s nt ns e cp ca) c =
      Inr NonAssociative"
    using assms(1) by (auto simp: resolve_defs NonAssociative_def split: if_splits)
  then show "Stringify (UnaryOperator t s nt ns e cp ca) c = Failed ErrNonAssociative c"
    by simp
next
  assume "assoc = RightAssociative \<and> ownPrec \<noteq> 0"
  then have "resolveOperatorAssociativity (UnaryOperator t s nt ns e cp ca) c =
      Inr RightAssociative"
    and "resolveOperatorPrecedence (UnaryOperator t s nt ns e cp ca) c = Inr ownPrec"
    using assms by (auto simp: resolve_defs RightAssociative_def split: if_splits)
  then show "Stringify (UnaryOperator t s nt ns e cp ca) c =
      (if \<not> isOperator e then Stringify e (WriteVerbatim c (s @ '' ''))
       else
         (case resolveOperatorPrecedence e c of
            Inl err \<Rightarrow> Failed err c
          | Inr childPrec \<Rightarrow>
              if spec_unary_paren ownPrec childPrec
              then stringifyParen e (WriteVerbatim c (s @ '' ''))
              else Stringify e (WriteVerbatim c (s @ '' ''))))"
    by (simp add: spec_unary_paren_def andThen_Done op_defs split: sum.split
        del: stringifyParen.simps)
next
  assume "assoc = LeftAssociative \<and> ownPrec \<noteq> 0"
  then have "resolveOperatorAssociativity (UnaryOperator t s nt ns e cp ca) c =
      Inr LeftAssociative"
    and "resolveOperatorPrecedence (UnaryOperator t s nt ns e cp ca) c = Inr ownPrec"
    using assms by (auto simp: resolve_defs LeftAssociative_def split: if_splits)
  then show "Stringify (UnaryOperator t s nt ns e cp ca) c =
      andThen
        (if \<not> isOperator e then Stringify e c
         else
           (case resolveOperatorPrecedence e c of
              Inl err \<Rightarrow> Failed err c
            | Inr childPrec \<Rightarrow>
                if spec_unary_paren ownPrec childPrec then stringifyParen e c
                else Stringify e c))
        (\<lambda>c1. Done (WriteVerbatim c1 ('' '' @ s)))"
    by (simp add: spec_unary_paren_def op_defs split: sum.split del: stringifyParen.simps)
next
  assume other: "assoc \<noteq> 0 \<and> assoc \<noteq> NonAssociative \<and> assoc \<noteq> RightAssociative \<and>
      assoc \<noteq> LeftAssociative \<and> ownPrec \<noteq> 0"
  then have "resolveOperatorAssociativity (UnaryOperator t s nt ns e cp ca) c = Inr assoc"
    and "resolveOperatorPrecedence (UnaryOperator t s nt ns e cp ca) c = Inr ownPrec"
    using assms by (auto simp: resolve_defs split: if_splits)
  then show "Stringify (UnaryOperator t s nt ns e cp ca) c =
      (if \<not> isOperator e then Stringify e c
       else
         (case resolveOperatorPrecedence e c of
            Inl err \<Rightarrow> Failed err c
          | Inr childPrec \<Rightarrow>
              if spec_unary_paren ownPrec childPrec then stringifyParen e c
              else Stringify e c))"
    using other
    by (simp add: spec_unary_paren_def andThen_Done split: sum.split
        del: stringifyParen.simps)
next
  fix childPrec
  show "spec_unary_paren ownPrec childPrec \<longleftrightarrow> childPrec < ownPrec"
    by (simp add: spec_unary_paren_def)
next
  show "\<not> spec_unary_paren ownPrec ownPrec"
    by (simp add: spec_unary_paren_def)
next
  fix x c'
  show "stringifyParen x c' =
      andThen (Stringify x (WriteVerbatim c' ''('')) (\<lambda>c1. Done (WriteVerbatim c1 '')''))"
    by simp
next
  fix x
  show "isOperator x \<longleftrightarrow>
        (\<exists>t s nt ns y cp ca. x = UnaryOperator t s nt ns y cp ca) \<or>
        (\<exists>t s nt ns l r cp ca sp. x = BinaryOperator t s nt ns l r cp ca sp) \<or>
        (\<exists>t s1 s2 nt ns1 ns2 e1 e2 e3 cp ca.
           x = TernaryOperator t s1 s2 nt ns1 ns2 e1 e2 e3 cp ca)"
    by (rule isOperator_iff)
qed

theorem unary_parentheses_witness:
  "Stringify (NotOp (Or (Column [] ''a'') (Column [] ''b''))) exampleDialect =
     Done (exampleDialect\<lparr>buffer := ''NOT (a OR b)''\<rparr>) \<and>
   Stringify (NotOp (NotOp (Column [] ''a''))) exampleDialect =
     Done (exampleDialect\<lparr>buffer := ''NOT NOT a''\<rparr>) \<and>
   Stringify (NotOp (Eq (Column [] ''a'') (Column [] ''b''))) exampleDialect =
     Done (exampleDialect\<lparr>buffer := ''NOT a = b''\<rparr>) \<and>
   Stringify (IsNull (Eq (Column [] ''a'') (Column [] ''b''))) exampleDialect =
     Done (exampleDialect\<lparr>buffer := ''(a = b) IS NULL''\<rparr>) \<and>
   Stringify (IsNull (IsNotNull (Column [] ''a''))) exampleDialect =
     Done (exampleDialect\<lparr>buffer := ''a IS NOT NULL IS NULL''\<rparr>) \<and>
   Stringify (UnaryOperator OpNot ''NOT'' 0 [] (Column [] ''a'') 0 NonAssociative)
     exampleDialect = Failed ErrNonAssociative exampleDialect \<and>
   Stringify (UnaryOperator OpNot ''NOT'' 0 [] (Or (Column [] ''a'') (Column [] ''b'')) 0 7)
     exampleDialect = Done (exampleDialect\<lparr>buffer := ''(a OR b)''\<rparr>)"
proof -
  have r1: "RightAssociative = (if (0 :: nat) \<noteq> 0 then 0 else associativityTable exampleDialect OpNot)"
    and r2: "3 = (if (0 :: nat) \<noteq> 0 then 0 else precedenceTable exampleDialect OpNot)"
    and l1: "LeftAssociative =
      (if (0 :: nat) \<noteq> 0 then 0 else associativityTable exampleDialect OpIsNull)"
    and l2: "6 = (if (0 :: nat) \<noteq> 0 then 0 else precedenceTable exampleDialect OpIsNull)"
    and n1: "NonAssociative =
      (if NonAssociative \<noteq> 0 then NonAssociative else associativityTable exampleDialect OpNot)"
    and n2: "3 = (if (0 :: nat) \<noteq> 0 then 0 else precedenceTable exampleDialect OpNot)"
    by (simp_all add: exampleDialect_def op_defs)
  note prefix = unary_parentheses [OF r1 r2, where s = "''NOT''" and nt = 0 and ns = "[]"
      and e = "Or (Column [] ''a'') (Column [] ''b'')", THEN conjunct2, THEN conjunct1]
  note suffix = unary_parentheses [OF l1 l2, where s = "''IS NULL''" and nt = OpIsNotNull
      and ns = "''IS NOT NULL''" and e = "Eq (Column [] ''a'') (Column [] ''b'')",
      THEN conjunct2, THEN conjunct2, THEN conjunct1]
  have o1: "7 = (if (7 :: nat) \<noteq> 0 then 7 else associativityTable exampleDialect OpNot)"
    by simp
  note other = unary_parentheses [OF o1 r2, where s = "''NOT''" and nt = 0 and ns = "[]"
      and e = "Or (Column [] ''a'') (Column [] ''b'')", THEN conjunct2, THEN conjunct2,
      THEN conjunct2, THEN conjunct1]
  have "Stringify (UnaryOperator OpNot ''NOT'' 0 [] (Or (Column [] ''a'') (Column [] ''b'')) 0 7)
      exampleDialect =
      (if \<not> isOperator (Or (Column [] ''a'') (Column [] ''b''))
       then Stringify (Or (Column [] ''a'') (Column [] ''b'')) exampleDialect
       else
         (case resolveOperatorPrecedence (Or (Column [] ''a'') (Column [] ''b''))
             exampleDialect of
            Inl err \<Rightarrow> Failed err exampleDialect
          | Inr childPrec \<Rightarrow>
              if spec_unary_paren 3 childPrec
              then stringifyParen (Or (Column [] ''a'') (Column [] ''b'')) exampleDialect
              else Stringify (Or (Column [] ''a'') (Column [] ''b'')) exampleDialect))"
    by (rule mp [OF other]) (simp add: op_defs)
  then have unnamed: "Stringify
      (UnaryOperator OpNot ''NOT'' 0 [] (Or (Column [] ''a'') (Column [] ''b'')) 0 7)
      exampleDialect = Done (exampleDialect\<lparr>buffer := ''(a OR b)''\<rparr>)"
    by (simp add: spec_unary_paren_def ctor_defs eval_defs op_defs)
  note refused = unary_parentheses [OF n1 n2, where s = "''NOT''" and nt = 0 and ns = "[]"
      and e = "Column [] ''a''", THEN conjunct1]
  have "Stringify (NotOp (Or (Column [] ''a'') (Column [] ''b''))) exampleDialect =
      (if \<not> isOperator (Or (Column [] ''a'') (Column [] ''b''))
       then Stringify (Or (Column [] ''a'') (Column [] ''b''))
         (WriteVerbatim exampleDialect (''NOT'' @ '' ''))
       else
         (case resolveOperatorPrecedence (Or (Column [] ''a'') (Column [] ''b''))
             exampleDialect of
            Inl err \<Rightarrow> Failed err exampleDialect
          | Inr childPrec \<Rightarrow>
              if spec_unary_paren 3 childPrec
              then stringifyParen (Or (Column [] ''a'') (Column [] ''b''))
                (WriteVerbatim exampleDialect (''NOT'' @ '' ''))
              else Stringify (Or (Column [] ''a'') (Column [] ''b''))
                (WriteVerbatim exampleDialect (''NOT'' @ '' ''))))"
    unfolding NotOp_def [of "Or (Column [] ''a'') (Column [] ''b'')"]
    by (rule mp [OF prefix]) simp
  then have "Stringify (NotOp (Or (Column [] ''a'') (Column [] ''b''))) exampleDialect =
      Done (exampleDialect\<lparr>buffer := ''NOT (a OR b)''\<rparr>)"
    by (simp add: spec_unary_paren_def ctor_defs eval_defs op_defs)
  moreover have "Stringify (IsNull (Eq (Column [] ''a'') (Column [] ''b''))) exampleDialect =
      andThen
        (if \<not> isOperator (Eq (Column [] ''a'') (Column [] ''b''))
         then Stringify (Eq (Column [] ''a'') (Column [] ''b'')) exampleDialect
         else
           (case resolveOperatorPrecedence (Eq (Column [] ''a'') (Column [] ''b''))
               exampleDialect of
              Inl err \<Rightarrow> Failed err exampleDialect
            | Inr childPrec \<Rightarrow>
                if spec_unary_paren 6 childPrec
                then stringifyParen (Eq (Column [] ''a'') (Column [] ''b'')) exampleDialect
                else Stringify (Eq (Column [] ''a'') (Column [] ''b'')) exampleDialect))
        (\<lambda>c1. Done (WriteVerbatim c1 ('' '' @ ''IS NULL'')))"
    unfolding IsNull_def [of "Eq (Column [] ''a'') (Column [] ''b'')"]
    by (rule mp [OF suffix]) simp
  then have "Stringify (IsNull (Eq (Column [] ''a'') (Column [] ''b''))) exampleDialect =
      Done (exampleDialect\<lparr>buffer := ''(a = b) IS NULL''\<rparr>)"
    by (simp add: spec_unary_paren_def ctor_defs eval_defs op_defs)
  moreover have "Stringify (UnaryOperator OpNot ''NOT'' 0 [] (Column [] ''a'') 0 NonAssociative)
      exampleDialect = Failed ErrNonAssociative exampleDialect"
    by (rule mp [OF refused]) (rule refl)
  moreover have
    "Stringify (NotOp (NotOp (Column [] ''a''))) exampleDialect =
       Done (exampleDialect\<lparr>buffer := ''NOT NOT a''\<rparr>)"
    "Stringify (NotOp (Eq (Column [] ''a'') (Column [] ''b''))) exampleDialect =
       Done (exampleDialect\<lparr>buffer := ''NOT a = b''\<rparr>)"
    "Stringify (IsNull (IsNotNull (Column [] ''a''))) exampleDialect =
       Done (exampleDialect\<lparr>buffer := ''a IS NOT NULL IS NULL''\<rparr>)"
    by (simp_all add: ctor_defs eval_defs op_defs)
  ultimately show ?thesis
    using unnamed by (simp only: simp_thms)
qed

section \<open>Negation normalization\<close>

lemma negatable_Transform:
  "isOperator (Transform e c) \<and> negatable (Transform e c) \<Longrightarrow> isOperator e \<and> negatable e"
  by (cases "(e, c)" rule: Transform.cases) (auto split: if_splits)

lemma map_option_same:
  "(\<And>a. x = Some a \<Longrightarrow> f a = g a) \<Longrightarrow> map_option f x = map_option g x"
  by (cases x) simp_all

lemma Transform_Not:
  "Transform (UnaryOperator OpNot s nt ns e cp ca) c =
     (if isOperator e \<and> negatable e then Transform (negate e) c
      else UnaryOperator OpNot s nt ns (Transform e c) cp ca)"
  by simp

text \<open>
  C8. Rewriting is idempotent: rewriting a rewritten tree gives the same tree, node by
  node. By induction along the calls of \<open>Transform\<close>; a \<^verbatim>\<open>NOT\<close> that is kept has a child
  that is not a negatable operator, and rewriting that child does not make it one.
\<close>

theorem Transform_idempotent: "Transform (Transform n c) c' = Transform n c"
proof (induction n c arbitrary: c' rule: Transform.induct)
  case (26 t s nt ns e cp ca c)
  show ?case
  proof (cases "isNot (UnaryOperator t s nt ns e cp ca) \<and> isOperator e \<and> negatable e")
    case True
    then show ?thesis
      using "26.IH"(1) by simp
  next
    case False
    then have keep: "\<not> (isNot (UnaryOperator t s nt ns (Transform e c) cp ca) \<and>
        isOperator (Transform e c) \<and> negatable (Transform e c))"
      using negatable_Transform [of e c] by auto
    have "Transform (UnaryOperator t s nt ns e cp ca) c =
        UnaryOperator t s nt ns (Transform e c) cp ca"
      using False by auto
    moreover have "Transform (UnaryOperator t s nt ns (Transform e c) cp ca) c' =
        UnaryOperator t s nt ns (Transform (Transform e c) c') cp ca"
      using keep by auto
    ultimately show ?thesis
      using "26.IH"(2) [OF False] by simp
  qed
qed (auto simp: option.map_comp comp_def intro!: map_option_same cong: map_cong)

text \<open>
  C2, as the claim states it, fails where the operand is itself changed by the
  rewrite: the replacement is rewritten afterwards, operand included, so
  \<^verbatim>\<open>rewrite(NOT(IS_NULL(x)))\<close> is \<^verbatim>\<open>IS_NOT_NULL(rewrite(x))\<close> and not \<^verbatim>\<open>IS_NOT_NULL(x)\<close>.
\<close>

theorem not_collapse_counterexample:
  "Transform (NotOp (IsNull (NotOp (NotOp (Column [] ''a''))))) exampleDialect =
     IsNotNull (Column [] ''a'') \<and>
   Stringify (Transform (NotOp (IsNull (NotOp (NotOp (Column [] ''a''))))) exampleDialect)
     exampleDialect = Done (exampleDialect\<lparr>buffer := ''a IS NOT NULL''\<rparr>) \<and>
   Stringify (IsNotNull (NotOp (NotOp (Column [] ''a'')))) exampleDialect =
     Done (exampleDialect\<lparr>buffer := ''(NOT NOT a) IS NOT NULL''\<rparr>)"
  by (simp add: ctor_defs eval_defs op_defs)

text \<open>
  C2, amended. In a rewrite, a logical NOT whose child is an operator with
  \<open>negatable\<close> true is replaced by the child's negated counterpart, and the replacement
  is rewritten in turn; otherwise the NOT is kept with its child rewritten. The logical
  NOT is itself negatable and its \<open>negate\<close> returns its child, so
  \<^verbatim>\<open>rewrite(NOT(NOT(P)))\<close> is \<^verbatim>\<open>rewrite(P)\<close> for every \<open>P\<close>. \<^verbatim>\<open>rewrite(NOT(IS_NULL(x)))\<close> is
  \<^verbatim>\<open>rewrite(IS_NOT_NULL(x))\<close>, that is \<^verbatim>\<open>IS_NOT_NULL(rewrite(x))\<close>, and prints as
  \<^verbatim>\<open>IS_NOT_NULL(x)\<close> does when the rewrite leaves \<open>x\<close> as it is.
\<close>

theorem not_collapse:
  "Transform (UnaryOperator OpNot s nt ns e cp ca) c =
     (if isOperator e \<and> negatable e then Transform (negate e) c
      else UnaryOperator OpNot s nt ns (Transform e c) cp ca) \<and>
   negatable (UnaryOperator OpNot s nt ns e cp ca) \<and>
   negate (UnaryOperator OpNot s nt ns e cp ca) = e \<and>
   (negatable (UnaryOperator t s nt ns e cp ca) \<longleftrightarrow> t = OpNot \<or> (nt \<noteq> 0 \<and> ns \<noteq> [])) \<and>
   (negatable (BinaryOperator t s nt ns l r cp ca sp) \<longleftrightarrow> nt \<noteq> 0 \<and> ns \<noteq> []) \<and>
   (negatable (TernaryOperator t s1 s2 nt ns1 ns2 e1 e2 e3 cp ca) \<longleftrightarrow>
      nt \<noteq> 0 \<and> ns1 \<noteq> [] \<and> ns2 \<noteq> []) \<and>
   (isOperator x \<longleftrightarrow>
      (\<exists>t s nt ns y cp ca. x = UnaryOperator t s nt ns y cp ca) \<or>
      (\<exists>t s nt ns l r cp ca sp. x = BinaryOperator t s nt ns l r cp ca sp) \<or>
      (\<exists>t s1 s2 nt ns1 ns2 e1 e2 e3 cp ca.
         x = TernaryOperator t s1 s2 nt ns1 ns2 e1 e2 e3 cp ca)) \<and>
   Transform (NotOp (NotOp P)) c = Transform P c \<and>
   Stringify (Transform (NotOp (NotOp P)) c) c' = Stringify (Transform P c) c' \<and>
   Transform (NotOp (IsNull x)) c = IsNotNull (Transform x c) \<and>
   Transform (NotOp (IsNull x)) c = Transform (IsNotNull x) c \<and>
   Stringify (Transform (NotOp (IsNull x)) c) c' = Stringify (Transform (IsNotNull x) c) c' \<and>
   (Transform x c = x \<longrightarrow>
      Stringify (Transform (NotOp (IsNull x)) c) c' = Stringify (IsNotNull x) c')"
proof -
  have double: "Transform (NotOp (NotOp P)) c = Transform P c"
    by (simp add: NotOp_def)
  have null: "Transform (NotOp (IsNull x)) c = IsNotNull (Transform x c)"
    by (simp add: NotOp_def IsNull_def IsNotNull_def op_defs)
  have notnull: "Transform (IsNotNull x) c = IsNotNull (Transform x c)"
    by (simp add: IsNotNull_def op_defs)
  show ?thesis
    unfolding double null notnull
    by (intro conjI impI isOperator_iff Transform_Not) (simp_all del: Stringify.simps)
qed

theorem not_collapse_witness:
  "Transform (Column [] ''a'') exampleDialect = Column [] ''a'' \<and>
   Stringify (Transform (NotOp (IsNull (Column [] ''a''))) exampleDialect) exampleDialect =
     Stringify (IsNotNull (Column [] ''a'')) exampleDialect \<and>
   Stringify (IsNotNull (Column [] ''a'')) exampleDialect =
     Done (exampleDialect\<lparr>buffer := ''a IS NOT NULL''\<rparr>) \<and>
   Transform (NotOp (Eq (Column [] ''a'') (Column [] ''b''))) exampleDialect =
     NotEq (Column [] ''a'') (Column [] ''b'') \<and>
   Transform (NotOp (NotOp (Eq (Column [] ''a'') (Column [] ''b'')))) exampleDialect =
     Eq (Column [] ''a'') (Column [] ''b'') \<and>
   Transform (NotOp (And (Column [] ''a'') (NotOp (NotOp (Column [] ''b''))))) exampleDialect =
     NotOp (And (Column [] ''a'') (Column [] ''b''))"
proof -
  have leaf: "Transform (Column [] ''a'') exampleDialect = Column [] ''a''"
    by simp
  note inst = not_collapse [where x = "Column [] ''a''" and c = exampleDialect
      and c' = exampleDialect, THEN conjunct2, THEN conjunct2, THEN conjunct2, THEN conjunct2,
      THEN conjunct2, THEN conjunct2, THEN conjunct2, THEN conjunct2, THEN conjunct2,
      THEN conjunct2, THEN conjunct2, THEN conjunct2]
  from inst have "Stringify (Transform (NotOp (IsNull (Column [] ''a''))) exampleDialect)
      exampleDialect = Stringify (IsNotNull (Column [] ''a'')) exampleDialect"
    using leaf by (rule mp)
  moreover have
    "Stringify (IsNotNull (Column [] ''a'')) exampleDialect =
       Done (exampleDialect\<lparr>buffer := ''a IS NOT NULL''\<rparr>)"
    "Transform (NotOp (Eq (Column [] ''a'') (Column [] ''b''))) exampleDialect =
       NotEq (Column [] ''a'') (Column [] ''b'')"
    "Transform (NotOp (NotOp (Eq (Column [] ''a'') (Column [] ''b'')))) exampleDialect =
       Eq (Column [] ''a'') (Column [] ''b'')"
    "Transform (NotOp (And (Column [] ''a'') (NotOp (NotOp (Column [] ''b''))))) exampleDialect =
       NotOp (And (Column [] ''a'') (Column [] ''b''))"
    by (simp_all add: ctor_defs eval_defs op_defs)
  ultimately show ?thesis
    using leaf by (simp only: simp_thms)
qed

section \<open>Placeholder binding\<close>

lemma Stringify_Placeholder:
  "Stringify (Placeholder p) c =
     (case map_of (bindings c) p of
        Some pos \<Rightarrow> Done (c\<lparr>buffer := buffer c @ renderPlaceholder c p pos\<rparr>)
      | None \<Rightarrow>
          Done (c\<lparr>buffer := buffer c @ renderPlaceholder c p (Suc (length (bindings c))),
                  bindings := bindings c @ [(p, Suc (length (bindings c)))]\<rparr>))"
  by (simp add: insertPlaceholder_def makePlaceholder_def WriteVerbatim_def Let_def
      split: option.split)

lemma frame_bound:
  "frame c c' \<Longrightarrow> map_of (bindings c) p = Some pos \<Longrightarrow> map_of (bindings c') p = Some pos"
  by (auto simp: frame_def)

text \<open>
  C6. Printing a placeholder asks the binder for the position of its name: a name
  already bound in this print pass keeps its position, a name not yet bound gets the
  next position, one more than the number of names bound so far, and the binding is
  recorded; the text appended is the dialect's rendering of the name and the position.
  Whatever is printed in between leaves the rendering function and the bindings made so
  far as they are, so a later placeholder of the same name gets the same position and
  the same text, and binds nothing new. The positions of a pass that starts with no
  bindings are 1, 2, 3 and so on, in the order of first occurrence, each name bound
  once.
\<close>

theorem placeholder_binding:
  "Stringify (Placeholder p) c =
     (case map_of (bindings c) p of
        Some pos \<Rightarrow> Done (c\<lparr>buffer := buffer c @ renderPlaceholder c p pos\<rparr>)
      | None \<Rightarrow>
          Done (c\<lparr>buffer := buffer c @ renderPlaceholder c p (Suc (length (bindings c))),
                  bindings := bindings c @ [(p, Suc (length (bindings c)))]\<rparr>)) \<and>
   (Stringify n c = Done c' \<longrightarrow> frame c c') \<and>
   (frame c c' \<longrightarrow>
      renderPlaceholder c' = renderPlaceholder c \<and>
      (\<forall>pos. map_of (bindings c) p = Some pos \<longrightarrow> map_of (bindings c') p = Some pos) \<and>
      (sequential c \<longrightarrow> sequential c')) \<and>
   (Stringify (Placeholder p) c = Done c1 \<and> frame c1 c2 \<longrightarrow>
      (\<exists>pos. map_of (bindings c1) p = Some pos \<and>
         buffer c1 = buffer c @ renderPlaceholder c p pos \<and>
         Stringify (Placeholder p) c2 =
           Done (c2\<lparr>buffer := buffer c2 @ renderPlaceholder c p pos\<rparr>))) \<and>
   (bindings c = [] \<longrightarrow> sequential c) \<and>
   (sequential c \<longleftrightarrow>
      map snd (bindings c) = [1..<Suc (length (bindings c))] \<and> distinct (map fst (bindings c)))"
proof (intro conjI impI)
  show "Stringify (Placeholder p) c =
     (case map_of (bindings c) p of
        Some pos \<Rightarrow> Done (c\<lparr>buffer := buffer c @ renderPlaceholder c p pos\<rparr>)
      | None \<Rightarrow>
          Done (c\<lparr>buffer := buffer c @ renderPlaceholder c p (Suc (length (bindings c))),
                  bindings := bindings c @ [(p, Suc (length (bindings c)))]\<rparr>))"
    by (rule Stringify_Placeholder)
next
  assume "Stringify n c = Done c'"
  then show "frame c c'"
    by (rule frame_Stringify)
next
  assume "frame c c'"
  then show "renderPlaceholder c' = renderPlaceholder c"
    by (simp add: frame_def)
next
  assume "frame c c'"
  then show "\<forall>pos. map_of (bindings c) p = Some pos \<longrightarrow> map_of (bindings c') p = Some pos"
    using frame_bound by blast
next
  assume "frame c c'" and "sequential c"
  then show "sequential c'"
    by (simp add: frame_def)
next
  assume a: "Stringify (Placeholder p) c = Done c1 \<and> frame c1 c2"
  then have first: "Stringify (Placeholder p) c = Done c1" and later: "frame c1 c2"
    by simp_all
  have "\<exists>pos. map_of (bindings c1) p = Some pos \<and>
      buffer c1 = buffer c @ renderPlaceholder c p pos"
  proof (cases "map_of (bindings c) p")
    case None
    then have "c1 = c\<lparr>buffer := buffer c @ renderPlaceholder c p (Suc (length (bindings c))),
        bindings := bindings c @ [(p, Suc (length (bindings c)))]\<rparr>"
      using first unfolding Stringify_Placeholder by simp
    then show ?thesis
      using None by (simp add: map_add_def)
  next
    case (Some pos)
    then have "c1 = c\<lparr>buffer := buffer c @ renderPlaceholder c p pos\<rparr>"
      using first unfolding Stringify_Placeholder by simp
    then show ?thesis
      using Some by simp
  qed
  then obtain pos where bound: "map_of (bindings c1) p = Some pos"
    and text1: "buffer c1 = buffer c @ renderPlaceholder c p pos"
    by blast
  have render: "renderPlaceholder c1 = renderPlaceholder c"
    using frame_Stringify [OF first] by (simp add: frame_def)
  have "map_of (bindings c2) p = Some pos"
    using later bound by (rule frame_bound)
  moreover have "renderPlaceholder c2 = renderPlaceholder c"
    using later render by (simp add: frame_def)
  ultimately have "Stringify (Placeholder p) c2 =
      Done (c2\<lparr>buffer := buffer c2 @ renderPlaceholder c p pos\<rparr>)"
    unfolding Stringify_Placeholder by simp
  with bound text1 show "\<exists>pos. map_of (bindings c1) p = Some pos \<and>
      buffer c1 = buffer c @ renderPlaceholder c p pos \<and>
      Stringify (Placeholder p) c2 =
        Done (c2\<lparr>buffer := buffer c2 @ renderPlaceholder c p pos\<rparr>)"
    by blast
next
  assume "bindings c = []"
  then show "sequential c"
    by (simp add: sequential_def)
next
  show "sequential c \<longleftrightarrow>
      map snd (bindings c) = [1..<Suc (length (bindings c))] \<and> distinct (map fst (bindings c))"
    by (simp add: sequential_def)
qed

theorem placeholder_binding_witness:
  "Stringify (Placeholder ''x'') exampleDialect =
     Done (exampleDialect\<lparr>buffer := ''$1'', bindings := [(''x'', 1)]\<rparr>) \<and>
   Stringify
     (And (Eq (Column [] ''a'') (Placeholder ''x''))
        (Or (Eq (Column [] ''b'') (Placeholder ''y'')) (Eq (Column [] ''c'') (Placeholder ''x''))))
     exampleDialect =
     Done (exampleDialect\<lparr>buffer := ''a = $1 AND (b = $2 OR c = $1)'',
       bindings := [(''x'', 1), (''y'', 2)]\<rparr>) \<and>
   sequential (exampleDialect\<lparr>buffer := ''a = $1 AND (b = $2 OR c = $1)'',
       bindings := [(''x'', 1), (''y'', 2)]\<rparr>)"
proof -
  note inst = placeholder_binding [where p = "''x''" and c = exampleDialect
      and n = "And (Eq (Column [] ''a'') (Placeholder ''x''))
        (Or (Eq (Column [] ''b'') (Placeholder ''y'')) (Eq (Column [] ''c'') (Placeholder ''x'')))"
      and c' = "exampleDialect\<lparr>buffer := ''a = $1 AND (b = $2 OR c = $1)'',
        bindings := [(''x'', 1), (''y'', 2)]\<rparr>"]
  have whole: "Stringify
     (And (Eq (Column [] ''a'') (Placeholder ''x''))
        (Or (Eq (Column [] ''b'') (Placeholder ''y'')) (Eq (Column [] ''c'') (Placeholder ''x''))))
     exampleDialect =
     Done (exampleDialect\<lparr>buffer := ''a = $1 AND (b = $2 OR c = $1)'',
       bindings := [(''x'', 1), (''y'', 2)]\<rparr>)"
    by (simp add: ctor_defs eval_defs op_defs)
  have start: "bindings exampleDialect = []"
    by (simp add: exampleDialect_def)
  have one: "Stringify (Placeholder ''x'') exampleDialect =
      Done (exampleDialect\<lparr>buffer := ''$1'', bindings := [(''x'', 1)]\<rparr>)"
    unfolding inst [THEN conjunct1] by (simp add: exampleDialect_def)
  have kept: "frame exampleDialect (exampleDialect\<lparr>buffer := ''a = $1 AND (b = $2 OR c = $1)'',
       bindings := [(''x'', 1), (''y'', 2)]\<rparr>)"
    by (rule mp [OF inst [THEN conjunct2, THEN conjunct1] whole])
  have "sequential exampleDialect"
    by (rule mp [OF inst [THEN conjunct2, THEN conjunct2, THEN conjunct2, THEN conjunct2,
      THEN conjunct1] start])
  with kept have "sequential (exampleDialect\<lparr>buffer := ''a = $1 AND (b = $2 OR c = $1)'',
       bindings := [(''x'', 1), (''y'', 2)]\<rparr>)"
    using inst [THEN conjunct2, THEN conjunct2, THEN conjunct1] by (simp del: Stringify.simps)
  with one whole show ?thesis
    by (simp only: simp_thms)
qed

end
